theory Spec2Isabelle
  imports Complex_Main "HOL-Library.List_Lexorder"
begin

section \<open>Persistent store and conversation state engine\<close>

text \<open>
  Modelled from the spec: \<^verbatim>\<open>config.py\<close> is not among the sources, so \<^verbatim>\<open>config.States\<close>
  is the enumeration of steps of section 4.2, under the member names the sources use
  (\<^verbatim>\<open>States.IDLE\<close>, \<^verbatim>\<open>States.LINE\<close>, ...).
\<close>

datatype States =
  IDLE | LINE | TRAIN | TRAIN_MANUAL | STATION | DIRECTION | TIME
  | ROUTE_CHOICE | ROUTE_MANUAL | COMMENT | CONFIRM

text \<open>
  A Python \<^verbatim>\<open>str\<close> is a sequence of Unicode code points. Dictionary keys of the
  conversation record are the ASCII literals of the sources (\<^verbatim>\<open>'line'\<close>,
  \<^verbatim>\<open>'last_msg'\<close>, ...).
\<close>

type_synonym pystr = "nat list"

datatype jvalue = JStr pystr | JInt int

text \<open>
  The JSON object kept in column \<^verbatim>\<open>state_data\<close>: a dictionary in which each of the keys
  \<^verbatim>\<open>'state'\<close> and \<^verbatim>\<open>'data'\<close> may be absent. \<^verbatim>\<open>json.dumps\<close> followed by
  \<^verbatim>\<open>json.loads\<close> gives such a dictionary back as it was.
\<close>

record state_dict =
  sd_state :: "States option"
  sd_data :: "(string \<rightharpoonup> jvalue) option"

definition empty_dict :: state_dict where
  "empty_dict = \<lparr>sd_state = None, sd_data = None\<rparr>"

text \<open>Truth value of a dictionary: false exactly when it has no key.\<close>

definition truthy :: "state_dict \<Rightarrow> bool" where
  "truthy d = (sd_state d \<noteq> None \<or> sd_data d \<noteq> None)"

record state_row =
  state_data :: state_dict
  updated_at :: int

record user_row =
  username :: "pystr option"
  first_name :: "pystr option"
  created_at :: int

record ban_row =
  reason :: pystr
  banned_at :: int

text \<open>
  The four tables of \<^verbatim>\<open>database.py\<close>. Timestamps are seconds; \<^verbatim>\<open>CURRENT_TIMESTAMP\<close> is the
  argument \<open>now\<close> of the operations that write one. Table \<^verbatim>\<open>users\<close> is kept in rowid order
  (the primary key), table \<^verbatim>\<open>trains\<close> in the order of its autoincremented ids.
\<close>

record database =
  users_tbl :: "(int \<times> user_row) list"
  banned_tbl :: "int \<rightharpoonup> ban_row"
  states_tbl :: "int \<rightharpoonup> state_row"
  trains_tbl :: "pystr list"

definition set_user_state :: "int \<Rightarrow> int \<Rightarrow> state_dict \<Rightarrow> database \<Rightarrow> database" where
  "set_user_state now user_id d db =
     db\<lparr>states_tbl := (states_tbl db)(user_id \<mapsto> \<lparr>state_data = d, updated_at = now\<rparr>)\<rparr>"

definition get_user_state :: "database \<Rightarrow> int \<Rightarrow> state_dict option" where
  "get_user_state db user_id = map_option state_data (states_tbl db user_id)"

definition clear_user_state :: "int \<Rightarrow> database \<Rightarrow> database" where
  "clear_user_state user_id db = db\<lparr>states_tbl := (states_tbl db)(user_id := None)\<rparr>"

text \<open>
  \<^verbatim>\<open>DELETE FROM user_states WHERE datetime(updated_at) < datetime('now', '-<minutes> minutes')\<close>.
  For a negative argument the modifier reads \<^verbatim>\<open>--5 minutes\<close>, which SQLite does not
  accept: the right-hand side is NULL and no row is deleted.
\<close>

definition cleanup_old_states :: "int \<Rightarrow> int \<Rightarrow> database \<Rightarrow> database" where
  "cleanup_old_states now minutes db =
     (if minutes < 0 then db
      else db\<lparr>states_tbl := (\<lambda>u. case states_tbl db u of
                 None \<Rightarrow> None
               | Some r \<Rightarrow> if updated_at r < now - 60 * minutes then None else Some r)\<rparr>)"

definition add_user :: "int \<Rightarrow> int \<Rightarrow> pystr option \<Rightarrow> pystr option \<Rightarrow> database \<Rightarrow> database" where
  "add_user now user_id un fn db =
     db\<lparr>users_tbl :=
          insort_key fst (user_id, \<lparr>username = un, first_name = fn, created_at = now\<rparr>)
            (filter (\<lambda>p. fst p \<noteq> user_id) (users_tbl db))\<rparr>"


definition get_user_info :: "database \<Rightarrow> int \<Rightarrow> user_row option" where
  "get_user_info db user_id = map_of (users_tbl db) user_id"

definition ban_user :: "int \<Rightarrow> int \<Rightarrow> pystr \<Rightarrow> database \<Rightarrow> database" where
  "ban_user now user_id r db =
     db\<lparr>banned_tbl := (banned_tbl db)(user_id \<mapsto> \<lparr>reason = r, banned_at = now\<rparr>)\<rparr>"

definition unban_user :: "int \<Rightarrow> database \<Rightarrow> database" where
  "unban_user user_id db = db\<lparr>banned_tbl := (banned_tbl db)(user_id := None)\<rparr>"

definition is_banned :: "database \<Rightarrow> int \<Rightarrow> bool" where
  "is_banned db user_id = (banned_tbl db user_id \<noteq> None)"

text \<open>
  \<^verbatim>\<open>SELECT user_id FROM users WHERE username = ? COLLATE NOCASE\<close>, first row: the collation
  folds the 26 ASCII capitals and nothing else.
\<close>

definition nocase :: "pystr \<Rightarrow> pystr" where
  "nocase s = map (\<lambda>c. if 65 \<le> c \<and> c \<le> 90 then c + 32 else c) s"

definition get_user_id_by_username :: "database \<Rightarrow> pystr \<Rightarrow> int option" where
  "get_user_id_by_username db name =
     (case find (\<lambda>p. case username (snd p) of
                        None \<Rightarrow> False
                      | Some n \<Rightarrow> nocase n = nocase name) (users_tbl db) of
        None \<Rightarrow> None
      | Some p \<Rightarrow> Some (fst p))"

text \<open>
  \<^verbatim>\<open>set_trains\<close>: the table is emptied, then every name is inserted with
  \<^verbatim>\<open>INSERT OR IGNORE\<close>, which skips a name the table already holds.
\<close>

definition set_trains :: "pystr list \<Rightarrow> database \<Rightarrow> database" where
  "set_trains trains db =
     db\<lparr>trains_tbl := foldl (\<lambda>tbl name. if name \<in> set tbl then tbl else tbl @ [name]) [] trains\<rparr>"

text \<open>
  \<^verbatim>\<open>get_trains\<close>: \<^verbatim>\<open>SELECT name FROM trains ORDER BY name\<close>. The column has the default
  collation, which compares the UTF-8 bytes of the names; on strings of code points that
  is the lexicographic order of the code points, the order of lists.
\<close>

definition get_trains :: "database \<Rightarrow> pystr list" where
  "get_trains db = sort (trains_tbl db)"

subsection \<open>StateManager\<close>

definition get_state :: "database \<Rightarrow> int \<Rightarrow> States" where
  "get_state db user_id =
     (case get_user_state db user_id of
        None \<Rightarrow> IDLE
      | Some d \<Rightarrow> if truthy d then (case sd_state d of None \<Rightarrow> IDLE | Some s \<Rightarrow> s) else IDLE)"

definition set_state :: "int \<Rightarrow> int \<Rightarrow> States \<Rightarrow> database \<Rightarrow> database" where
  "set_state now user_id s db =
     (let current_data = (case get_user_state db user_id of
                            None \<Rightarrow> empty_dict
                          | Some d \<Rightarrow> if truthy d then d else empty_dict)
      in set_user_state now user_id (current_data\<lparr>sd_state := Some s\<rparr>) db)"

definition get_data :: "database \<Rightarrow> int \<Rightarrow> (string \<rightharpoonup> jvalue)" where
  "get_data db user_id =
     (case get_user_state db user_id of
        None \<Rightarrow> Map.empty
      | Some d \<Rightarrow> if truthy d then (case sd_data d of None \<Rightarrow> Map.empty | Some m \<Rightarrow> m)
                  else Map.empty)"

definition idle_dict :: state_dict where
  "idle_dict = \<lparr>sd_state = Some IDLE, sd_data = Some Map.empty\<rparr>"

definition set_data :: "int \<Rightarrow> int \<Rightarrow> string \<Rightarrow> jvalue \<Rightarrow> database \<Rightarrow> database" where
  "set_data now user_id key v db =
     (let d = (case get_user_state db user_id of
                 None \<Rightarrow> idle_dict
               | Some d \<Rightarrow> if truthy d then d else idle_dict);
          m = (case sd_data d of None \<Rightarrow> Map.empty | Some m \<Rightarrow> m)
      in set_user_state now user_id (d\<lparr>sd_data := Some (m(key \<mapsto> v))\<rparr>) db)"

definition update_data :: "int \<Rightarrow> int \<Rightarrow> (string \<rightharpoonup> jvalue) \<Rightarrow> database \<Rightarrow> database" where
  "update_data now user_id updates db =
     (let d = (case get_user_state db user_id of
                 None \<Rightarrow> idle_dict
               | Some d \<Rightarrow> if truthy d then d else idle_dict);
          m = (case sd_data d of None \<Rightarrow> Map.empty | Some m \<Rightarrow> m)
      in set_user_state now user_id (d\<lparr>sd_data := Some (m ++ updates)\<rparr>) db)"

definition clear_state :: "int \<Rightarrow> database \<Rightarrow> database" where
  "clear_state user_id db = clear_user_state user_id db"

definition reset_state :: "int \<Rightarrow> int \<Rightarrow> database \<Rightarrow> database" where
  "reset_state now user_id db = set_state now user_id IDLE db"

text \<open>An empty store, and a store holding one conversation record, for concrete runs.\<close>

definition db0 :: database where
  "db0 = \<lparr>users_tbl = [], banned_tbl = Map.empty, states_tbl = Map.empty, trains_tbl = []\<rparr>"

definition db_line :: database where
  "db_line = update_data 100 7 [''line'' \<mapsto> JStr [49]] (set_state 100 7 LINE db0)"

section \<open>Python strings\<close>

text \<open>
  The builtins of \<^verbatim>\<open>str\<close> and \<^verbatim>\<open>int\<close> that the sources call, over code points. The three
  tables are those of the Unicode character database (version 14) as CPython 3.11 reads
  it: the characters for which \<^verbatim>\<open>str.isspace\<close>, \<^verbatim>\<open>str.isdigit\<close> and \<^verbatim>\<open>str.isdecimal\<close>
  hold, as inclusive ranges of code points.
\<close>

datatype py_error =
  ValueError | IndexError | KeyError | OverflowError | TypeError | AttributeError | ApiError

definition in_ranges :: "(nat \<times> nat) list \<Rightarrow> nat \<Rightarrow> bool" where
  "in_ranges rs c = list_ex (\<lambda>r. fst r \<le> c \<and> c \<le> snd r) rs"

definition space_ranges :: "(nat \<times> nat) list" where
  "space_ranges =
    [(9, 13), (28, 32), (133, 133), (160, 160), (5760, 5760), (8192, 8202), (8232, 8233),
     (8239, 8239), (8287, 8287), (12288, 12288)]"

definition digit_ranges :: "(nat \<times> nat) list" where
  "digit_ranges =
    [(48, 57), (178, 179), (185, 185), (1632, 1641), (1776, 1785), (1984, 1993), (2406, 2415),
     (2534, 2543), (2662, 2671), (2790, 2799), (2918, 2927), (3046, 3055), (3174, 3183),
     (3302, 3311), (3430, 3439), (3558, 3567), (3664, 3673), (3792, 3801), (3872, 3881),
     (4160, 4169), (4240, 4249), (4969, 4977), (6112, 6121), (6160, 6169), (6470, 6479),
     (6608, 6618), (6784, 6793), (6800, 6809), (6992, 7001), (7088, 7097), (7232, 7241),
     (7248, 7257), (8304, 8304), (8308, 8313), (8320, 8329), (9312, 9320), (9332, 9340),
     (9352, 9360), (9450, 9450), (9461, 9469), (9471, 9471), (10102, 10110), (10112, 10120),
     (10122, 10130), (42528, 42537), (43216, 43225), (43264, 43273), (43472, 43481),
     (43504, 43513), (43600, 43609), (44016, 44025), (65296, 65305), (66720, 66729),
     (68160, 68163), (68912, 68921), (69216, 69224), (69714, 69722), (69734, 69743),
     (69872, 69881), (69942, 69951), (70096, 70105), (70384, 70393), (70736, 70745),
     (70864, 70873), (71248, 71257), (71360, 71369), (71472, 71481), (71904, 71913),
     (72016, 72025), (72784, 72793), (73040, 73049), (73120, 73129), (92768, 92777),
     (92864, 92873), (93008, 93017), (120782, 120831), (123200, 123209), (123632, 123641),
     (125264, 125273), (127232, 127242), (130032, 130041)]"

definition decimal_ranges :: "(nat \<times> nat) list" where
  "decimal_ranges =
    [(48, 57), (1632, 1641), (1776, 1785), (1984, 1993), (2406, 2415), (2534, 2543),
     (2662, 2671), (2790, 2799), (2918, 2927), (3046, 3055), (3174, 3183), (3302, 3311),
     (3430, 3439), (3558, 3567), (3664, 3673), (3792, 3801), (3872, 3881), (4160, 4169),
     (4240, 4249), (6112, 6121), (6160, 6169), (6470, 6479), (6608, 6617), (6784, 6793),
     (6800, 6809), (6992, 7001), (7088, 7097), (7232, 7241), (7248, 7257), (42528, 42537),
     (43216, 43225), (43264, 43273), (43472, 43481), (43504, 43513), (43600, 43609),
     (44016, 44025), (65296, 65305), (66720, 66729), (68912, 68921), (69734, 69743),
     (69872, 69881), (69942, 69951), (70096, 70105), (70384, 70393), (70736, 70745),
     (70864, 70873), (71248, 71257), (71360, 71369), (71472, 71481), (71904, 71913),
     (72016, 72025), (72784, 72793), (73040, 73049), (73120, 73129), (92768, 92777),
     (92864, 92873), (93008, 93017), (120782, 120831), (123200, 123209), (123632, 123641),
     (125264, 125273), (130032, 130041)]"

definition isspace_char :: "nat \<Rightarrow> bool" where
  "isspace_char c = in_ranges space_ranges c"

definition isdigit_char :: "nat \<Rightarrow> bool" where
  "isdigit_char c = in_ranges digit_ranges c"

text \<open>\<^verbatim>\<open>str.isdigit\<close>: every character is a digit and there is at least one character.\<close>

definition isdigit :: "pystr \<Rightarrow> bool" where
  "isdigit s = (s \<noteq> [] \<and> list_all isdigit_char s)"

text \<open>
  The value of a decimal digit (category Nd). Every range starts at a digit zero; the range
  of the mathematical digits holds five runs of ten.
\<close>

definition decimal_value :: "nat \<Rightarrow> nat option" where
  "decimal_value c =
     (case find (\<lambda>r. fst r \<le> c \<and> c \<le> snd r) decimal_ranges of
        None \<Rightarrow> None
      | Some r \<Rightarrow> Some ((c - fst r) mod 10))"

text \<open>\<^verbatim>\<open>str.strip()\<close> and \<^verbatim>\<open>str.lstrip()\<close> without argument.\<close>

definition lstrip :: "pystr \<Rightarrow> pystr" where
  "lstrip s = dropWhile isspace_char s"

definition strip :: "pystr \<Rightarrow> pystr" where
  "strip s = rev (dropWhile isspace_char (rev (dropWhile isspace_char s)))"

text \<open>
  \<^verbatim>\<open>str.split()\<close> without separator: the maximal runs of characters that are not
  whitespace. \<open>cur\<close> is the run being read.
\<close>

fun split_ws_from :: "pystr \<Rightarrow> pystr \<Rightarrow> pystr list" where
  "split_ws_from cur [] = (if cur = [] then [] else [cur])"
| "split_ws_from cur (c # cs) =
     (if isspace_char c then (if cur = [] then split_ws_from [] cs else cur # split_ws_from [] cs)
      else split_ws_from (cur @ [c]) cs)"

definition split_ws :: "pystr \<Rightarrow> pystr list" where
  "split_ws s = split_ws_from [] s"

text \<open>
  \<^verbatim>\<open>str.split(maxsplit=n)\<close> without separator: after \<open>n\<close> splits the rest of the string,
  without its leading whitespace, is the last item (if it is not empty).
\<close>

fun split_ws_max_from :: "nat \<Rightarrow> pystr \<Rightarrow> pystr \<Rightarrow> pystr list" where
  "split_ws_max_from n cur [] = (if cur = [] then [] else [cur])"
| "split_ws_max_from n cur (c # cs) =
     (if n = 0 \<and> cur = [] then (if lstrip (c # cs) = [] then [] else [lstrip (c # cs)])
      else if isspace_char c
        then (if cur = [] then split_ws_max_from n [] cs else cur # split_ws_max_from (n - 1) [] cs)
      else split_ws_max_from n (cur @ [c]) cs)"

definition split_ws_max :: "nat \<Rightarrow> pystr \<Rightarrow> pystr list" where
  "split_ws_max n s = split_ws_max_from n [] s"

text \<open>\<^verbatim>\<open>str.split(sep)\<close> for a separator of one character: empty items are kept.\<close>

fun split_on_from :: "nat \<Rightarrow> pystr \<Rightarrow> pystr \<Rightarrow> pystr list" where
  "split_on_from sep cur [] = [cur]"
| "split_on_from sep cur (c # cs) =
     (if c = sep then cur # split_on_from sep [] cs else split_on_from sep (cur @ [c]) cs)"

definition split_on :: "nat \<Rightarrow> pystr \<Rightarrow> pystr list" where
  "split_on sep s = split_on_from sep [] s"

text \<open>\<^verbatim>\<open>str.split(sep, 1)\<close> for a separator of one character.\<close>

fun split_on_once_from :: "nat \<Rightarrow> pystr \<Rightarrow> pystr \<Rightarrow> pystr list" where
  "split_on_once_from sep cur [] = [cur]"
| "split_on_once_from sep cur (c # cs) =
     (if c = sep then [cur, cs] else split_on_once_from sep (cur @ [c]) cs)"

definition split_on_once :: "nat \<Rightarrow> pystr \<Rightarrow> pystr list" where
  "split_on_once sep s = split_on_once_from sep [] s"

definition startswith :: "pystr \<Rightarrow> pystr \<Rightarrow> bool" where
  "startswith s p = (take (length p) s = p)"

text \<open>Indexing a list: \<^verbatim>\<open>xs[i]\<close> for an index that is not negative.\<close>

definition item :: "'a list \<Rightarrow> nat \<Rightarrow> py_error + 'a" where
  "item xs i = (if i < length xs then Inr (xs ! i) else Inl IndexError)"

text \<open>
  \<^verbatim>\<open>int(s)\<close> for a string, in base ten: whitespace around the number is dropped (the
  separators U+001C to U+001F are not whitespace here), then come an optional sign and
  decimal digits of any script, where one underscore may stand between two digits.
  Anything else raises \<^verbatim>\<open>ValueError\<close>. The interpreter's optional limit on the number of
  digits (4300 by default since 3.11) is beyond every string a message or a button carries
  and is not modelled.
\<close>

definition int_space :: "nat \<Rightarrow> bool" where
  "int_space c = (isspace_char c \<and> \<not> (28 \<le> c \<and> c \<le> 31))"

fun int_digits :: "nat \<Rightarrow> pystr \<Rightarrow> nat option" where
  "int_digits acc [] = Some acc"
| "int_digits acc (c # cs) =
     (if c = 95 then
        (case cs of
           [] \<Rightarrow> None
         | d # ds \<Rightarrow> (case decimal_value d of
                        None \<Rightarrow> None
                      | Some v \<Rightarrow> int_digits (10 * acc + v) ds))
      else (case decimal_value c of
              None \<Rightarrow> None
            | Some v \<Rightarrow> int_digits (10 * acc + v) cs))"

definition int_unsigned :: "pystr \<Rightarrow> nat option" where
  "int_unsigned s =
     (case s of
        [] \<Rightarrow> None
      | c # cs \<Rightarrow> (case decimal_value c of None \<Rightarrow> None | Some v \<Rightarrow> int_digits v cs))"

definition py_int :: "pystr \<Rightarrow> py_error + int" where
  "py_int s =
     (let t = rev (dropWhile int_space (rev (dropWhile int_space s)));
          neg = (t \<noteq> [] \<and> hd t = 45);
          body = (if t \<noteq> [] \<and> (hd t = 45 \<or> hd t = 43) then tl t else t)
      in case int_unsigned body of
           None \<Rightarrow> Inl ValueError
         | Some n \<Rightarrow> Inr (if neg then - int n else int n))"

section \<open>Validation helpers of utils.py\<close>

definition msg_only_digits :: pystr where
  "msg_only_digits =
    [10071, 65039, 32, 1052, 1072, 1088, 1096, 1088, 1091, 1090, 32, 1076, 1086, 1083, 1078,
     1077, 1085, 32, 1089, 1086, 1076, 1077, 1088, 1078, 1072, 1090, 1100, 32, 1090, 1086,
     1083, 1100, 1082, 1086, 32, 1094, 1080, 1092, 1088, 1099]"

definition msg_three_digits :: pystr where
  "msg_three_digits =
    [10071, 65039, 32, 1052, 1072, 1088, 1096, 1088, 1091, 1090, 32, 1076, 1086, 1083, 1078,
     1077, 1085, 32, 1073, 1099, 1090, 1100, 32, 1090, 1088, 1105, 1093, 1079, 1085, 1072,
     1095, 1085, 1099, 1084]"

definition label_now :: pystr where
  "label_now =
    [1057, 1077, 1081, 1095, 1072, 1089]"

definition validate_route_number :: "pystr \<Rightarrow> bool \<times> pystr option" where
  "validate_route_number route =
     (if \<not> isdigit route then (False, Some msg_only_digits)
      else if length route \<noteq> 3 then (False, Some msg_three_digits)
      else (True, None))"

text \<open>
  \<^verbatim>\<open>parse_time_ago\<close>. The body of the \<^verbatim>\<open>try\<close> either gives an integer or raises; the
  handler catches \<^verbatim>\<open>ValueError\<close> and \<^verbatim>\<open>IndexError\<close> and lets any other exception pass.
\<close>

definition parse_time_ago_try :: "pystr \<Rightarrow> py_error + int" where
  "parse_time_ago_try time_str =
     (case item (split_ws time_str) 0 of
        Inl e \<Rightarrow> Inl e
      | Inr t \<Rightarrow> py_int t)"

definition parse_time_ago :: "pystr \<Rightarrow> py_error + int" where
  "parse_time_ago time_str =
     (if time_str = label_now then Inr 0
      else (case parse_time_ago_try time_str of
              Inr n \<Rightarrow> Inr n
            | Inl e \<Rightarrow> if e = ValueError \<or> e = IndexError then Inr 0 else Inl e))"

section \<open>The bot and its environment\<close>

text \<open>
  Handlers run against a world: the store, the wall clock (seconds, a rational number in
  place of Python's float), the requests made to the messaging transport so far with the
  pauses, and the two in-memory sets of the admin modules. The transport is an oracle: it
  says of the request at each position of the log whether it succeeds, which message id
  it returns and how long it takes. \<open>local_minute\<close> maps the clock to the local time
  \<^verbatim>\<open>datetime.now()\<close> reads, in whole minutes since 0001-01-01 00:00.
\<close>

datatype markup =
  NoMarkup | ReplyKeyboard "pystr list" | InlineKeyboard "(pystr \<times> pystr) list" | ReplyKeyboardRemove

datatype api_call =
    SendMessage int pystr markup
  | ReplyTo int int pystr markup
  | AnswerCallback int "pystr option"
  | EditMessageText pystr int int
  | DeleteMessage int jvalue

datatype event = Call api_call | Sleep rat

record world =
  w_db :: database
  w_clock :: rat
  w_log :: "event list"
  editing_users :: "int set"
  waiting_for_text :: "int set"

record env =
  api_ok :: "nat \<Rightarrow> bool"
  api_msg_id :: "nat \<Rightarrow> int"
  api_dur :: "nat \<Rightarrow> rat"
  local_minute :: "rat \<Rightarrow> int"

text \<open>
  The values of \<^verbatim>\<open>config.py\<close>, which is not among the sources, are parameters.
  \<^verbatim>\<open>LINES\<close> and \<^verbatim>\<open>LINE_EMOJI\<close> are dictionaries, given by their items in order.
\<close>

record config =
  ADMINS :: "int list"
  LINES :: "(pystr \<times> pystr) list"
  LINE_EMOJI :: "(pystr \<times> pystr) list"
  CHANNEL_ID :: int
  GONG_RATE_LIMIT :: int
  GONG_DELAY :: rat

record message =
  m_from_id :: int
  m_username :: "pystr option"
  m_first_name :: "pystr option"
  m_chat_id :: int
  m_message_id :: int
  m_text :: pystr

record cb_message =
  cm_chat_id :: int
  cm_message_id :: int
  cm_text :: pystr

record callback =
  c_id :: int
  c_from_id :: int
  c_username :: "pystr option"
  c_first_name :: "pystr option"
  c_data :: pystr
  c_message :: "cb_message option"

text \<open>
  An action either returns a value or raises, and changes the world. \<open>try_except\<close> is
  \<^verbatim>\<open>try: ... except Exception: ...\<close>; the world keeps what the body did before it raised.
\<close>

type_synonym 'a act = "world \<Rightarrow> (py_error + 'a) \<times> world"

definition ret :: "'a \<Rightarrow> 'a act" where
  "ret v w = (Inr v, w)"

definition raise :: "py_error \<Rightarrow> 'a act" where
  "raise e w = (Inl e, w)"

definition bind_act :: "'a act \<Rightarrow> ('a \<Rightarrow> 'b act) \<Rightarrow> 'b act" where
  "bind_act m f w = (case m w of (Inl e, w') \<Rightarrow> (Inl e, w') | (Inr v, w') \<Rightarrow> f v w')"

definition try_except :: "'a act \<Rightarrow> (py_error \<Rightarrow> 'a act) \<Rightarrow> 'a act" where
  "try_except m h w = (case m w of (Inl e, w') \<Rightarrow> h e w' | (Inr v, w') \<Rightarrow> (Inr v, w'))"

definition gets :: "(world \<Rightarrow> 'a) \<Rightarrow> 'a act" where
  "gets f w = (Inr (f w), w)"

definition lift :: "py_error + 'a \<Rightarrow> 'a act" where
  "lift r w = (r, w)"

text \<open>A write to the store; \<^verbatim>\<open>CURRENT_TIMESTAMP\<close> is the clock in whole seconds.\<close>

definition db_upd :: "(int \<Rightarrow> database \<Rightarrow> database) \<Rightarrow> unit act" where
  "db_upd f w = (Inr (), w\<lparr>w_db := f \<lfloor>w_clock w\<rfloor> (w_db w)\<rparr>)"

definition api :: "env \<Rightarrow> api_call \<Rightarrow> int act" where
  "api env c w =
     (let n = length (w_log w);
          w' = w\<lparr>w_log := w_log w @ [Call c], w_clock := w_clock w + api_dur env n\<rparr>
      in (if api_ok env n then Inr (api_msg_id env n) else Inl ApiError, w'))"

definition sleep :: "rat \<Rightarrow> unit act" where
  "sleep d w = (Inr (), w\<lparr>w_log := w_log w @ [Sleep d], w_clock := w_clock w + d\<rparr>)"

fun map_err :: "('a \<Rightarrow> py_error + 'b) \<Rightarrow> 'a list \<Rightarrow> py_error + 'b list" where
  "map_err f [] = Inr []"
| "map_err f (x # xs) =
     (case f x of
        Inl e \<Rightarrow> Inl e
      | Inr y \<Rightarrow> (case map_err f xs of Inl e \<Rightarrow> Inl e | Inr ys \<Rightarrow> Inr (y # ys)))"

subsection \<open>ReportBot: greeting and wizard entry\<close>

definition msg_blocked :: pystr where
  "msg_blocked =
    [10060, 32, 1042, 1099, 32, 1079, 1072, 1073, 1083, 1086, 1082, 1080, 1088, 1086, 1074,
     1072, 1085, 1099, 32, 1080, 32, 1085, 1077, 32, 1084, 1086, 1078, 1077, 1090, 1077, 32,
     1080, 1089, 1087, 1086, 1083, 1100, 1079, 1086, 1074, 1072, 1090, 1100, 32, 1073, 1086,
     1090, 1072, 46]"

definition btn_report :: pystr where
  "btn_report =
    [128232, 32, 1057, 1086, 1086, 1073, 1097, 1080, 1090, 1100, 32, 1086, 32, 1074, 1072,
     1075, 1086, 1085, 1077]"

definition msg_greeting :: pystr where
  "msg_greeting =
    [128075, 127995, 32, 1047, 1076, 1088, 1072, 1074, 1089, 1090, 1074, 1091, 1081, 1090,
     1077, 33, 32, 1047, 1076, 1077, 1089, 1100, 32, 1074, 1099, 32, 1084, 1086, 1078, 1077,
     1090, 1077, 32, 1089, 1086, 1086, 1073, 1097, 1080, 1090, 1100, 32, 1086, 32, 1085, 1077,
     1086, 1073, 1099, 1095, 1085, 1086, 1084, 32, 1074, 1072, 1075, 1086, 1085, 1077, 47,
     1089, 1086, 1089, 1090, 1072, 1074, 1077, 46]"

definition msg_choose_line :: pystr where
  "msg_choose_line =
    [49, 65039, 8419, 32, 1042, 1099, 1073, 1077, 1088, 1080, 1090, 1077, 32, 1083, 1080, 1085,
     1080, 1102, 58]"

definition msg_error_start :: pystr where
  "msg_error_start =
    [10071, 65039, 32, 1054, 1096, 1080, 1073, 1082, 1072, 46, 32, 1055, 1086, 1087, 1088,
     1086, 1073, 1091, 1081, 1090, 1077, 32, 47, 115, 116, 97, 114, 116]"

definition msg_cb_error :: pystr where
  "msg_cb_error =
    [10060, 32, 1054, 1096, 1080, 1073, 1082, 1072]"

definition msg_cb_stale :: pystr where
  "msg_cb_stale =
    [10060, 32, 1059, 1089, 1090, 1072, 1088, 1077, 1083, 1086]"

definition msg_cb_start :: pystr where
  "msg_cb_start =
    [10060, 32, 1053, 1072, 1095, 1085, 1080, 1090, 1077, 32, 1089, 32, 47, 115, 116, 97, 114,
     116]"

definition msg_ask_route :: pystr where
  "msg_ask_route =
    [54, 65039, 8419, 32, 1052, 1072, 1088, 1096, 1088, 1091, 1090, 32, 40, 1090, 1088, 1105,
     1093, 1079, 1085, 1072, 1095, 1085, 1086, 1077, 32, 1095, 1080, 1089, 1083, 1086, 41, 32,
     1080, 1083, 1080, 32, 1087, 1088, 1086, 1087, 1091, 1089, 1090, 1080, 1090, 1100, 58]"

definition btn_route_manual :: pystr where
  "btn_route_manual =
    [1059, 1082, 1072, 1079, 1072, 1090, 1100, 32, 1084, 1072, 1088, 1096, 1088, 1091, 1090]"

definition btn_route_skip :: pystr where
  "btn_route_skip =
    [1055, 1088, 1086, 1087, 1091, 1089, 1090, 1080, 1090, 1100]"

definition msg_enter_route :: pystr where
  "msg_enter_route =
    [9997, 65039, 32, 1042, 1074, 1077, 1076, 1080, 1090, 1077, 32, 1084, 1072, 1088, 1096,
     1088, 1091, 1090, 32, 40, 1090, 1088, 1105, 1093, 1079, 1085, 1072, 1095, 1085, 1086,
     1077, 32, 1095, 1080, 1089, 1083, 1086, 41, 58]"

definition msg_choose_button :: pystr where
  "msg_choose_button =
    [10071, 65039, 32, 1042, 1099, 1073, 1077, 1088, 1080, 1090, 1077, 32, 1082, 1085, 1086,
     1087, 1082, 1091]"

definition btn_no_comment :: pystr where
  "btn_no_comment =
    [1041, 1077, 1079, 32, 1082, 1086, 1084, 1084, 1077, 1085, 1090, 1072, 1088, 1080, 1103]"

definition msg_ask_comment :: pystr where
  "msg_ask_comment =
    [55, 65039, 8419, 32, 1050, 1086, 1084, 1084, 1077, 1085, 1090, 1072, 1088, 1080, 1081, 32,
     1080, 1083, 1080, 32, 171, 1041, 1077, 1079, 32, 1082, 1086, 1084, 1084, 1077, 1085, 1090,
     1072, 1088, 1080, 1103, 187, 58]"

definition msg_published :: pystr where
  "msg_published =
    [9989, 32, 1054, 1087, 1091, 1073, 1083, 1080, 1082, 1086, 1074, 1072, 1085, 1086, 33]"

definition msg_publish_failed :: pystr where
  "msg_publish_failed =
    [10060, 32, 1054, 1096, 1080, 1073, 1082, 1072, 32, 1087, 1091, 1073, 1083, 1080, 1082,
     1072, 1094, 1080, 1080]"

definition msg_cancelled :: pystr where
  "msg_cancelled =
    [10060, 32, 1054, 1090, 1084, 1077, 1085, 1077, 1085, 1086, 46, 32, 1048, 1089, 1087, 1086,
     1083, 1100, 1079, 1091, 1081, 1090, 1077, 32, 47, 115, 116, 97, 114, 116, 32, 1076, 1083,
     1103, 32, 1085, 1086, 1074, 1086, 1081, 32, 1087, 1086, 1087, 1099, 1090, 1082, 1080, 46]"

definition error_msg :: "env \<Rightarrow> int \<Rightarrow> unit act" where
  "error_msg env chat_id =
     try_except (bind_act (api env (SendMessage chat_id msg_error_start NoMarkup)) (\<lambda>_. ret ()))
       (\<lambda>e. ret ())"

definition handle_start :: "env \<Rightarrow> message \<Rightarrow> unit act" where
  "handle_start env m =
     try_except
       (bind_act (gets (\<lambda>w. is_banned (w_db w) (m_from_id m))) (\<lambda>banned.
          if banned then
            bind_act (api env (SendMessage (m_chat_id m) msg_blocked NoMarkup)) (\<lambda>_. ret ())
          else
            bind_act (db_upd (\<lambda>now. add_user now (m_from_id m) (m_username m) (m_first_name m))) (\<lambda>_.
            bind_act (api env (SendMessage (m_chat_id m) msg_greeting (ReplyKeyboard [btn_report])))
              (\<lambda>_. ret ()))))
       (\<lambda>e. ret ())"

text \<open>
  One button per line: \<^verbatim>\<open>LINE_EMOJI[line_id]\<close> raises \<^verbatim>\<open>KeyError\<close> for a line without emoji.
  The callback data is \<^verbatim>\<open>line_\<close> followed by the id.
\<close>

definition line_button :: "config \<Rightarrow> pystr \<times> pystr \<Rightarrow> py_error + pystr \<times> pystr" where
  "line_button cfg l =
     (case map_of (LINE_EMOJI cfg) (fst l) of
        None \<Rightarrow> Inl KeyError
      | Some emoji \<Rightarrow>
          Inr (emoji @ [32] @ snd l @ [32, 40] @ fst l @ [41, 32] @ emoji,
               [108, 105, 110, 101, 95] @ fst l))"

definition start_report :: "config \<Rightarrow> env \<Rightarrow> message \<Rightarrow> unit act" where
  "start_report cfg env m =
     try_except
       (bind_act (gets (\<lambda>w. is_banned (w_db w) (m_from_id m))) (\<lambda>banned.
          if banned then
            bind_act (api env (SendMessage (m_chat_id m) msg_blocked NoMarkup)) (\<lambda>_. ret ())
          else
            bind_act (db_upd (\<lambda>now. clear_state (m_from_id m))) (\<lambda>_.
            bind_act (db_upd (\<lambda>now. set_state now (m_from_id m) LINE)) (\<lambda>_.
            bind_act (lift (map_err (line_button cfg) (LINES cfg))) (\<lambda>buttons.
            bind_act (api env (SendMessage (m_chat_id m) msg_choose_line (InlineKeyboard buttons)))
              (\<lambda>msg_id.
            db_upd (\<lambda>now. set_data now (m_from_id m) ''last_msg'' (JInt msg_id))))))))
       (\<lambda>e. error_msg env (m_chat_id m))"

subsection \<open>Concrete environments for runs\<close>

definition env_ok :: env where
  "env_ok = \<lparr>api_ok = (\<lambda>n. True), api_msg_id = (\<lambda>n. 500 + int n), api_dur = (\<lambda>n. 0),
             local_minute = (\<lambda>t. 1065000000)\<rparr>"

definition env_down :: env where
  "env_down = env_ok\<lparr>api_ok := (\<lambda>n. False)\<rparr>"

definition env_first_fails :: env where
  "env_first_fails = env_ok\<lparr>api_ok := (\<lambda>n. n \<noteq> 0)\<rparr>"

definition cfg0 :: config where
  "cfg0 = \<lparr>ADMINS = [1], LINES = [([49], [1050])], LINE_EMOJI = [([49], [128308])],
           CHANNEL_ID = -1001, GONG_RATE_LIMIT = 2, GONG_DELAY = 1\<rparr>"

definition world0 :: "database \<Rightarrow> world" where
  "world0 d = \<lparr>w_db = d, w_clock = 1000, w_log = [], editing_users = {}, waiting_for_text = {}\<rparr>"

definition msg_from :: "int \<Rightarrow> pystr \<Rightarrow> message" where
  "msg_from u t = \<lparr>m_from_id = u, m_username = None, m_first_name = Some [65], m_chat_id = u,
                   m_message_id = 40, m_text = t\<rparr>"

definition ban_text :: pystr where
  "ban_text = [115, 112, 97, 109]"

subsection \<open>TrainsManager: replacing the reference list\<close>

definition msg_trains_empty :: pystr where
  "msg_trains_empty =
    [10071, 65039, 32, 1057, 1087, 1080, 1089, 1086, 1082, 32, 1085, 1077, 32, 1084, 1086,
     1078, 1077, 1090, 32, 1073, 1099, 1090, 1100, 32, 1087, 1091, 1089, 1090, 1099, 1084, 46,
     32, 1055, 1086, 1087, 1088, 1086, 1073, 1091, 1081, 1090, 1077, 32, 47, 101, 100, 105,
     116, 116, 114, 97, 105, 110, 115, 32, 1089, 1085, 1086, 1074, 1072, 46]"

definition trains_result_head :: pystr where
  "trains_result_head =
    [9989, 32, 1057, 1087, 1080, 1089, 1086, 1082, 32, 1089, 1086, 1089, 1090, 1072, 1074,
     1086, 1074, 32, 1086, 1073, 1085, 1086, 1074, 1083, 1077, 1085, 33, 10, 10]"

definition trains_result_added :: pystr where
  "trains_result_added =
    [128202, 32, 1044, 1086, 1073, 1072, 1074, 1083, 1077, 1085, 1086, 58, 32]"

definition trains_result_items :: pystr where
  "trains_result_items =
    [32, 1089, 1086, 1089, 1090, 1072, 1074, 1086, 1074, 10]"

definition trains_result_removed :: pystr where
  "trains_result_removed =
    [128257, 32, 1059, 1076, 1072, 1083, 1077, 1085, 1086, 32, 1076, 1091, 1073, 1083, 1080,
     1082, 1072, 1090, 1086, 1074, 58, 32]"

definition trains_result_gap :: pystr where
  "trains_result_gap =
    [10, 10]"

definition trains_result_tail :: pystr where
  "trains_result_tail =
    [1048, 1089, 1087, 1086, 1083, 1100, 1079, 1091, 1081, 1090, 1077, 32, 47, 116, 114, 97,
     105, 110, 115, 32, 1076, 1083, 1103, 32, 1087, 1088, 1086, 1089, 1084, 1086, 1090, 1088,
     1072, 46]"

definition msg_trains_error :: pystr where
  "msg_trains_error =
    [10060, 32, 1054, 1096, 1080, 1073, 1082, 1072, 32, 1089, 1086, 1093, 1088, 1072, 1085,
     1077, 1085, 1080, 1103, 32, 1089, 1087, 1080, 1089, 1082, 1072]"

text \<open>\<^verbatim>\<open>str(n)\<close> for an integer: its decimal digits, after a minus sign if it is negative.\<close>

function dec_digits :: "nat \<Rightarrow> pystr" where
  "dec_digits n = (if n < 10 then [48 + n] else dec_digits (n div 10) @ [48 + n mod 10])"
  by pat_completeness auto
termination
  by (relation "measure id") auto

definition str_int :: "int \<Rightarrow> pystr" where
  "str_int i = (if i < 0 then 45 # dec_digits (nat (- i)) else dec_digits (nat i))"

definition trains_result_text :: "int \<Rightarrow> int \<Rightarrow> pystr" where
  "trains_result_text added removed =
     trains_result_head @ trains_result_added @ str_int added @ trains_result_items
     @ trains_result_removed @ str_int removed @ trains_result_gap @ trains_result_tail"

text \<open>
  The entries of the submitted text: its lines, stripped, without the empty ones and
  without those that start with a slash.
\<close>

definition parse_trains :: "pystr \<Rightarrow> pystr list" where
  "parse_trains text =
     filter (\<lambda>line. line \<noteq> [] \<and> \<not> startswith line [47]) (map strip (split_on 10 (strip text)))"

text \<open>The loop that drops duplicates: \<open>seen\<close> is the set, \<open>unique_trains\<close> the list.\<close>

fun unique_loop :: "pystr set \<Rightarrow> pystr list \<Rightarrow> pystr list \<Rightarrow> pystr list" where
  "unique_loop seen unique_trains [] = unique_trains"
| "unique_loop seen unique_trains (train # trains) =
     (if train \<notin> seen then unique_loop (insert train seen) (unique_trains @ [train]) trains
      else unique_loop seen unique_trains trains)"

definition handle_edit :: "config \<Rightarrow> env \<Rightarrow> message \<Rightarrow> unit act" where
  "handle_edit cfg env m =
     try_except
       (if m_from_id m \<notin> set (ADMINS cfg) then ret ()
        else
          bind_act (\<lambda>w. (Inr (), w\<lparr>editing_users := editing_users w - {m_from_id m}\<rparr>)) (\<lambda>_.
          let trains = parse_trains (m_text m) in
          if trains = [] then
            bind_act (api env (ReplyTo (m_chat_id m) (m_message_id m) msg_trains_empty ReplyKeyboardRemove))
              (\<lambda>_. ret ())
          else
            let unique_trains = unique_loop {} [] trains in
            bind_act (db_upd (\<lambda>now. set_trains unique_trains)) (\<lambda>_.
            bind_act (api env (ReplyTo (m_chat_id m) (m_message_id m)
                        (trains_result_text (int (length unique_trains))
                           (int (length trains) - int (length unique_trains)))
                        ReplyKeyboardRemove))
              (\<lambda>_. ret ()))))
       (\<lambda>e. bind_act (api env (ReplyTo (m_chat_id m) (m_message_id m) msg_trains_error NoMarkup))
              (\<lambda>_. ret ()))"

text \<open>
  The list the specification asks for, in its words: every entry once, in the order of
  first occurrence.
\<close>

function first_occurrences :: "'a list \<Rightarrow> 'a list" where
  "first_occurrences [] = []"
| "first_occurrences (x # xs) = x # first_occurrences (removeAll x xs)"
  by pat_completeness auto
termination
  by (relation "measure length") (auto simp: less_Suc_eq_le length_removeAll_less_eq)

text \<open>The edit of the specification's example: the lines A, B, A.\<close>

definition text_aba :: pystr where
  "text_aba = [65, 10, 66, 10, 65]"

text \<open>An edit with the lines B, A, B.\<close>

definition text_bab :: pystr where
  "text_bab = [66, 10, 65, 10, 66]"

subsection \<open>BanManager: the ban command\<close>

definition ban_help_1 :: pystr where
  "ban_help_1 =
    [10071, 65039, 32, 1048, 1089, 1087, 1086, 1083, 1100, 1079, 1086, 1074, 1072, 1085, 1080,
     1077, 58, 10, 10]"

definition ban_help_2 :: pystr where
  "ban_help_2 =
    [8226, 32, 47, 98, 97, 110, 32, 60, 117, 115, 101, 114, 95, 105, 100, 62, 32, 91, 1087,
     1088, 1080, 1095, 1080, 1085, 1072, 93, 10]"

definition ban_help_3 :: pystr where
  "ban_help_3 =
    [8226, 32, 47, 98, 97, 110, 32, 64, 117, 115, 101, 114, 110, 97, 109, 101, 32, 91, 1087,
     1088, 1080, 1095, 1080, 1085, 1072, 93, 10]"

definition ban_help_4 :: pystr where
  "ban_help_4 =
    [8226, 32, 47, 114, 101, 99, 101, 110, 116, 32, 8212, 32, 1087, 1086, 1082, 1072, 1079,
     1072, 1090, 1100, 32, 1087, 1086, 1089, 1083, 1077, 1076, 1085, 1080, 1093, 32, 1087,
     1086, 1083, 1100, 1079, 1086, 1074, 1072, 1090, 1077, 1083, 1077, 1081]"

definition ban_not_found_1 :: pystr where
  "ban_not_found_1 =
    [10060, 32, 1055, 1086, 1083, 1100, 1079, 1086, 1074, 1072, 1090, 1077, 1083, 1100, 32, 64]"

definition ban_not_found_2 :: pystr where
  "ban_not_found_2 =
    [32, 1085, 1077, 32, 1085, 1072, 1081, 1076, 1077, 1085, 32, 1074, 32, 1073, 1072, 1079,
     1077]"

definition ban_name_1 :: pystr where
  "ban_name_1 =
    [9989, 32, 1055, 1086, 1083, 1100, 1079, 1086, 1074, 1072, 1090, 1077, 1083, 1100, 32, 64]"

definition ban_name_2 :: pystr where
  "ban_name_2 =
    [32, 40, 73, 68, 58, 32]"

definition ban_name_3 :: pystr where
  "ban_name_3 =
    [41, 32, 1079, 1072, 1073, 1072, 1085, 1077, 1085, 10, 1055, 1088, 1080, 1095, 1080, 1085,
     1072, 58, 32]"

definition msg_ban_format :: pystr where
  "msg_ban_format =
    [10060, 32, 1053, 1077, 1074, 1077, 1088, 1085, 1099, 1081, 32, 1092, 1086, 1088, 1084,
     1072, 1090, 46, 32, 1048, 1089, 1087, 1086, 1083, 1100, 1079, 1091, 1081, 1090, 1077, 32,
     73, 68, 32, 1080, 1083, 1080, 32, 64, 117, 115, 101, 114, 110, 97, 109, 101]"

definition ban_id_1 :: pystr where
  "ban_id_1 =
    [9989, 32, 1055, 1086, 1083, 1100, 1079, 1086, 1074, 1072, 1090, 1077, 1083, 1100, 32]"

definition ban_id_2 :: pystr where
  "ban_id_2 =
    [32, 1079, 1072, 1073, 1072, 1085, 1077, 1085, 10, 1055, 1088, 1080, 1095, 1080, 1085,
     1072, 58, 32]"

definition msg_ban_error :: pystr where
  "msg_ban_error =
    [10060, 32, 1054, 1096, 1080, 1073, 1082, 1072, 32, 1087, 1088, 1080, 32, 1073, 1072, 1085,
     1077]"

text \<open>
  A Python integer bound to an SQLite parameter: the driver raises \<^verbatim>\<open>OverflowError\<close> for a
  value that does not fit 64 bits.
\<close>

definition sqlite_integer :: "int \<Rightarrow> py_error + int" where
  "sqlite_integer i = (if - (2 ^ 63) \<le> i \<and> i < 2 ^ 63 then Inr i else Inl OverflowError)"

definition ban_in_db :: "int \<Rightarrow> pystr \<Rightarrow> unit act" where
  "ban_in_db user_id r =
     bind_act (lift (sqlite_integer user_id)) (\<lambda>i. db_upd (\<lambda>now. ban_user now i r))"

definition reply_to :: "env \<Rightarrow> message \<Rightarrow> pystr \<Rightarrow> unit act" where
  "reply_to env m text =
     bind_act (api env (ReplyTo (m_chat_id m) (m_message_id m) text NoMarkup)) (\<lambda>_. ret ())"

definition handle_ban :: "config \<Rightarrow> env \<Rightarrow> message \<Rightarrow> unit act" where
  "handle_ban cfg env m =
     try_except
       (if m_from_id m \<notin> set (ADMINS cfg) then ret ()
        else
          let args = split_ws_max 2 (m_text m) in
          if length args < 2 then
            reply_to env m (ban_help_1 @ ban_help_2 @ ban_help_3 @ ban_help_4)
          else
            let user_identifier = args ! 1;
                r = (if length args > 2 then args ! 2 else [45])
            in
            if startswith user_identifier [64] then
              let name = tl user_identifier in
              bind_act (gets (\<lambda>w. get_user_id_by_username (w_db w) name)) (\<lambda>found.
                case found of
                  None \<Rightarrow> reply_to env m (ban_not_found_1 @ name @ ban_not_found_2)
                | Some user_id \<Rightarrow>
                    if user_id = 0 then reply_to env m (ban_not_found_1 @ name @ ban_not_found_2)
                    else
                      bind_act (ban_in_db user_id r) (\<lambda>_.
                      reply_to env m
                        (ban_name_1 @ name @ ban_name_2 @ str_int user_id @ ban_name_3 @ r)))
            else
              (case py_int user_identifier of
                 Inl e \<Rightarrow>
                   if e = ValueError then reply_to env m msg_ban_format else raise e
               | Inr user_id \<Rightarrow>
                   bind_act (ban_in_db user_id r) (\<lambda>_.
                   reply_to env m (ban_id_1 @ str_int user_id @ ban_id_2 @ r))))
       (\<lambda>e. reply_to env m msg_ban_error)"

text \<open>The commands \<^verbatim>\<open>/ban 12345\<close> and \<^verbatim>\<open>/ban @ghost\<close>.\<close>

definition text_ban_id :: pystr where
  "text_ban_id = [47, 98, 97, 110, 32, 49, 50, 51, 52, 53]"

definition text_ban_name :: pystr where
  "text_ban_name = [47, 98, 97, 110, 32, 64, 103, 104, 111, 115, 116]"

subsection \<open>ReportBot: the time step\<close>

definition check_state :: "env \<Rightarrow> callback \<Rightarrow> States \<Rightarrow> bool act" where
  "check_state env call expected =
     (case c_message call of
        None \<Rightarrow> bind_act (api env (AnswerCallback (c_id call) (Some msg_cb_stale))) (\<lambda>_. ret False)
      | Some cm \<Rightarrow>
          bind_act (gets (\<lambda>w. get_state (w_db w) (c_from_id call))) (\<lambda>s.
            if s \<noteq> expected then
              bind_act (api env (AnswerCallback (c_id call) (Some msg_cb_start))) (\<lambda>_. ret False)
            else ret True))"

text \<open>\<^verbatim>\<open>call.message.chat.id\<close>; reading an attribute of \<^verbatim>\<open>None\<close> raises.\<close>

definition call_chat_id :: "callback \<Rightarrow> py_error + int" where
  "call_chat_id call = (case c_message call of None \<Rightarrow> Inl AttributeError | Some cm \<Rightarrow> Inr (cm_chat_id cm))"

definition call_message_id :: "callback \<Rightarrow> py_error + int" where
  "call_message_id call =
     (case c_message call of None \<Rightarrow> Inl AttributeError | Some cm \<Rightarrow> Inr (cm_message_id cm))"

text \<open>Truth value of a stored value: a number other than zero, a string that is not empty.\<close>

fun jtruthy :: "jvalue \<Rightarrow> bool" where
  "jtruthy (JInt i) = (i \<noteq> 0)"
| "jtruthy (JStr s) = (s \<noteq> [])"

definition delete_msg :: "env \<Rightarrow> int \<Rightarrow> int \<Rightarrow> unit act" where
  "delete_msg env user_id chat_id =
     try_except
       (bind_act (gets (\<lambda>w. get_data (w_db w) user_id ''last_msg'')) (\<lambda>msg_id.
          case msg_id of
            None \<Rightarrow> ret ()
          | Some v \<Rightarrow>
              if jtruthy v then bind_act (api env (DeleteMessage chat_id v)) (\<lambda>_. ret ())
              else ret ()))
       (\<lambda>e. ret ())"

definition ask_route :: "env \<Rightarrow> int \<Rightarrow> int \<Rightarrow> unit act" where
  "ask_route env user_id chat_id =
     try_except
       (bind_act (api env (SendMessage chat_id msg_ask_route
                            (ReplyKeyboard [btn_route_manual, btn_route_skip]))) (\<lambda>msg_id.
        db_upd (\<lambda>now. set_data now user_id ''last_msg'' (JInt msg_id))))
       (\<lambda>e. error_msg env chat_id)"

text \<open>
  \<^verbatim>\<open>(datetime.now() - timedelta(minutes=n)).strftime("%H:%M")\<close>. A \<^verbatim>\<open>datetime\<close> lies
  between 0001-01-01 00:00 and the end of 9999-12-31, which are 3652059 days; the
  subtraction raises \<^verbatim>\<open>OverflowError\<close> when the result (or already the \<^verbatim>\<open>timedelta\<close>) is
  out of range. Whole minutes are subtracted, so the minute of the result is the minute
  of \<^verbatim>\<open>now\<close> less \<open>n\<close>.
\<close>

definition datetime_minutes :: int where
  "datetime_minutes = 3652059 * 1440"

definition minus_minutes :: "int \<Rightarrow> int \<Rightarrow> py_error + int" where
  "minus_minutes now_minute n =
     (if 0 \<le> now_minute - n \<and> now_minute - n < datetime_minutes then Inr (now_minute - n)
      else Inl OverflowError)"

definition two_digits :: "nat \<Rightarrow> pystr" where
  "two_digits n = [48 + n div 10, 48 + n mod 10]"

definition strftime_HM :: "int \<Rightarrow> pystr" where
  "strftime_HM minute = two_digits (nat ((minute div 60) mod 24)) @ [58] @ two_digits (nat (minute mod 60))"

definition select_time :: "env \<Rightarrow> callback \<Rightarrow> unit act" where
  "select_time env call =
     try_except
       (bind_act (check_state env call TIME) (\<lambda>ok.
          if \<not> ok then ret ()
          else
            bind_act (lift (item (split_on_once 95 (c_data call)) 1)) (\<lambda>time_str.
            bind_act (lift (parse_time_ago time_str)) (\<lambda>minutes_ago.
            bind_act (gets (\<lambda>w. local_minute env (w_clock w))) (\<lambda>now_minute.
            bind_act (lift (minus_minutes now_minute minutes_ago)) (\<lambda>real_minute.
            bind_act (db_upd (\<lambda>now. set_data now (c_from_id call) ''time''
                                      (JStr (strftime_HM real_minute)))) (\<lambda>_.
            bind_act (db_upd (\<lambda>now. set_state now (c_from_id call) ROUTE_CHOICE)) (\<lambda>_.
            bind_act (lift (call_chat_id call)) (\<lambda>chat_id.
            bind_act (delete_msg env (c_from_id call) chat_id) (\<lambda>_.
            bind_act (ask_route env (c_from_id call) chat_id) (\<lambda>_.
            bind_act (api env (AnswerCallback (c_id call) None)) (\<lambda>_. ret ()))))))))))))
       (\<lambda>e. bind_act (api env (AnswerCallback (c_id call) (Some msg_cb_error))) (\<lambda>_. ret ()))"

text \<open>
  A press of a time button by user 7, who is at step \<^verbatim>\<open>TIME\<close>: the callback data is
  \<^verbatim>\<open>time_\<close> followed by the label.
\<close>

definition db_time :: database where
  "db_time = set_state 100 7 TIME db0"

definition press_time :: "pystr \<Rightarrow> callback" where
  "press_time label =
     \<lparr>c_id = 3, c_from_id = 7, c_username = None, c_first_name = Some [65],
      c_data = [116, 105, 109, 101, 95] @ label,
      c_message = Some \<lparr>cm_chat_id = 7, cm_message_id = 41, cm_text = []\<rparr>\<rparr>"

text \<open>The labels \<^verbatim>\<open>5 min\<close> and \<^verbatim>\<open>100000000000\<close>.\<close>

definition label_5_min :: pystr where
  "label_5_min = [53, 32, 109, 105, 110]"

definition label_huge :: pystr where
  "label_huge = [49, 48, 48, 48, 48, 48, 48, 48, 48, 48, 48, 48]"

subsection \<open>ReportBot: confirmation and publishing\<close>

definition report_line :: pystr where
  "report_line =
    [128647, 32, 1051, 1080, 1085, 1080, 1103, 58, 32]"

definition report_train :: pystr where
  "report_train =
    [128646, 32, 1057, 1086, 1089, 1090, 1072, 1074, 58, 32]"

definition report_station :: pystr where
  "report_station =
    [128205, 32, 1057, 1090, 1072, 1085, 1094, 1080, 1103, 58, 32]"

definition report_direction :: pystr where
  "report_direction =
    [11014, 65039, 32, 1053, 1072, 1087, 1088, 1072, 1074, 1083, 1077, 1085, 1080, 1077, 58, 32]"

definition report_time :: pystr where
  "report_time =
    [128336, 32, 1042, 1088, 1077, 1084, 1103, 58, 32]"

definition report_comment :: pystr where
  "report_comment =
    [128172, 32, 1050, 1086, 1084, 1084, 1077, 1085, 1090, 1072, 1088, 1080, 1081, 58, 32]"

definition report_route :: pystr where
  "report_route =
    [128257, 32, 1052, 1072, 1088, 1096, 1088, 1091, 1090, 58, 32]"

definition report_sender :: pystr where
  "report_sender =
    [128235, 32, 1055, 1088, 1080, 1089, 1083, 1072, 1083, 58, 32]"

definition report_footer :: pystr where
  "report_footer =
    [10, 1055, 1088, 1077, 1076, 1083, 1086, 1078, 1082, 1072, 58, 32, 64, 118, 97, 103, 111,
     110, 95, 112, 114, 101, 100, 95, 98, 111, 116]"

definition default_name :: pystr where
  "default_name =
    [1055, 1086, 1083, 1100, 1079, 1086, 1074, 1072, 1090, 1077, 1083, 1100]"

definition link_open :: pystr where
  "link_open =
    [60, 97, 32, 104, 114, 101, 102, 61, 34, 116, 103, 58, 47, 47, 117, 115, 101, 114, 63, 105,
     100, 61]"

definition link_mid :: pystr where
  "link_mid =
    [34, 62]"

definition link_close :: pystr where
  "link_close =
    [60, 47, 97, 62]"

definition data_confirm_publish :: pystr where
  "data_confirm_publish =
    [99, 111, 110, 102, 105, 114, 109, 95, 112, 117, 98, 108, 105, 115, 104]"

definition data_confirm_cancel :: pystr where
  "data_confirm_cancel =
    [99, 111, 110, 102, 105, 114, 109, 95, 99, 97, 110, 99, 101, 108]"

definition html_amp :: pystr where
  "html_amp =
    [38, 97, 109, 112, 59]"

definition html_lt :: pystr where
  "html_lt =
    [38, 108, 116, 59]"

definition html_gt :: pystr where
  "html_gt =
    [38, 103, 116, 59]"

definition html_quot :: pystr where
  "html_quot =
    [38, 113, 117, 111, 116, 59]"

definition html_apos :: pystr where
  "html_apos =
    [38, 35, 120, 50, 55, 59]"

text \<open>\<^verbatim>\<open>html.escape\<close> with its default \<^verbatim>\<open>quote=True\<close>.\<close>

definition html_escape :: "pystr \<Rightarrow> pystr" where
  "html_escape s =
     concat (map (\<lambda>c. if c = 38 then html_amp else if c = 60 then html_lt
                      else if c = 62 then html_gt else if c = 34 then html_quot
                      else if c = 39 then html_apos else [c]) s)"

text \<open>\<^verbatim>\<open>str(v)\<close> of a stored value, and \<^verbatim>\<open>safe_html\<close> of one.\<close>

fun jstr :: "jvalue \<Rightarrow> pystr" where
  "jstr (JStr s) = s"
| "jstr (JInt i) = str_int i"

definition safe_html :: "jvalue \<Rightarrow> pystr" where
  "safe_html v = (if jtruthy v then html_escape (jstr v) else [])"

text \<open>An optional string counts as absent when it is \<^verbatim>\<open>None\<close> or empty.\<close>

definition present :: "pystr option \<Rightarrow> pystr option" where
  "present s = (case s of None \<Rightarrow> None | Some t \<Rightarrow> if t = [] then None else Some t)"

definition format_user_link :: "int \<Rightarrow> pystr option \<Rightarrow> pystr option \<Rightarrow> pystr" where
  "format_user_link user_id un fn =
     (case present un of
        Some name \<Rightarrow> 64 # name
      | None \<Rightarrow>
          link_open @ str_int user_id @ link_mid
          @ (case present fn of Some name \<Rightarrow> safe_html (JStr name) | None \<Rightarrow> default_name)
          @ link_close)"

definition data_item :: "(string \<rightharpoonup> jvalue) \<Rightarrow> string \<Rightarrow> py_error + jvalue" where
  "data_item d k = (case d k of None \<Rightarrow> Inl KeyError | Some v \<Rightarrow> Inr v)"

text \<open>\<^verbatim>\<open>LINE_EMOJI.get(data['line'], "")\<close>: the keys of the dictionary are strings.\<close>

definition line_emoji :: "config \<Rightarrow> jvalue \<Rightarrow> pystr" where
  "line_emoji cfg v =
     (case v of
        JStr s \<Rightarrow> (case map_of (LINE_EMOJI cfg) s of None \<Rightarrow> [] | Some e \<Rightarrow> e)
      | JInt i \<Rightarrow> [])"

text \<open>The text of the report: a missing field raises \<^verbatim>\<open>KeyError\<close>.\<close>

definition report_text ::
  "config \<Rightarrow> (string \<rightharpoonup> jvalue) \<Rightarrow> int \<Rightarrow> pystr option \<Rightarrow> pystr option \<Rightarrow> py_error + pystr" where
  "report_text cfg d user_id un fn =
     (case map_err (data_item d)
             [''line'', ''train'', ''station'', ''direction'', ''time'', ''comment'', ''route''] of
        Inl e \<Rightarrow> Inl e
      | Inr vs \<Rightarrow>
          Inr (report_line @ line_emoji cfg (vs ! 0) @ [32] @ jstr (vs ! 0) @ [32]
                 @ line_emoji cfg (vs ! 0) @ [10]
               @ report_train @ safe_html (vs ! 1) @ [10]
               @ report_station @ safe_html (vs ! 2) @ [10]
               @ report_direction @ safe_html (vs ! 3) @ [10]
               @ report_time @ jstr (vs ! 4) @ [10]
               @ report_comment @ safe_html (vs ! 5) @ [10]
               @ report_route @ jstr (vs ! 6) @ [10]
               @ report_sender @ format_user_link user_id un fn @ [10]
               @ report_footer))"

text \<open>
  The decorator \<^verbatim>\<open>retry_on_error\<close>: the loop over \<^verbatim>\<open>range(max_retries)\<close>, with the number
  of the attempt, the last exception and the attempts left; after the loop the last
  exception is raised (raising \<^verbatim>\<open>None\<close>, when there was no attempt, is a \<^verbatim>\<open>TypeError\<close>).
\<close>

fun retry_attempts :: "nat \<Rightarrow> rat \<Rightarrow> 'a act \<Rightarrow> nat \<Rightarrow> py_error option \<Rightarrow> nat \<Rightarrow> 'a act" where
  "retry_attempts max_retries delay func attempt last_exception 0 =
     (case last_exception of None \<Rightarrow> raise TypeError | Some e \<Rightarrow> raise e)"
| "retry_attempts max_retries delay func attempt last_exception (Suc left) =
     try_except func
       (\<lambda>e. bind_act (if attempt + 1 < max_retries then sleep (delay * 2 ^ attempt) else ret ())
              (\<lambda>_. retry_attempts max_retries delay func (attempt + 1) (Some e) left))"

definition retry_on_error :: "nat \<Rightarrow> rat \<Rightarrow> 'a act \<Rightarrow> 'a act" where
  "retry_on_error max_retries delay func = retry_attempts max_retries delay func 0 None max_retries"

text \<open>The body of \<^verbatim>\<open>_publish\<close>, and \<^verbatim>\<open>_publish\<close> as decorated.\<close>

definition publish_body :: "config \<Rightarrow> env \<Rightarrow> int \<Rightarrow> pystr option \<Rightarrow> pystr option \<Rightarrow> bool act" where
  "publish_body cfg env user_id un fn =
     try_except
       (bind_act (gets (\<lambda>w. get_data (w_db w) user_id)) (\<lambda>d.
        bind_act (lift (report_text cfg d user_id un fn)) (\<lambda>text.
        bind_act (api env (SendMessage (CHANNEL_ID cfg) text NoMarkup)) (\<lambda>_. ret True))))
       (\<lambda>e. ret False)"

definition publish :: "config \<Rightarrow> env \<Rightarrow> int \<Rightarrow> pystr option \<Rightarrow> pystr option \<Rightarrow> bool act" where
  "publish cfg env user_id un fn = retry_on_error 3 1 (publish_body cfg env user_id un fn)"

text \<open>The inner \<^verbatim>\<open>try\<close> of \<^verbatim>\<open>_confirm_action\<close>, which deletes the message of the buttons.\<close>

definition delete_call_message :: "env \<Rightarrow> callback \<Rightarrow> int \<Rightarrow> unit act" where
  "delete_call_message env call chat_id =
     try_except
       (bind_act (lift (call_message_id call)) (\<lambda>message_id.
        bind_act (api env (DeleteMessage chat_id (JInt message_id))) (\<lambda>_. ret ())))
       (\<lambda>e. ret ())"

definition confirm_action :: "config \<Rightarrow> env \<Rightarrow> callback \<Rightarrow> unit act" where
  "confirm_action cfg env call =
     try_except
       (bind_act (check_state env call CONFIRM) (\<lambda>ok.
          if \<not> ok then ret ()
          else
            bind_act (lift (call_chat_id call)) (\<lambda>chat_id.
            bind_act
              (if c_data call = data_confirm_publish then
                 bind_act (publish cfg env (c_from_id call) (c_username call) (c_first_name call))
                   (\<lambda>success.
                      if success then
                        bind_act (api env (SendMessage chat_id msg_published (ReplyKeyboard [btn_report])))
                          (\<lambda>_. ret ())
                      else
                        bind_act (api env (SendMessage chat_id msg_publish_failed NoMarkup))
                          (\<lambda>_. ret ()))
               else bind_act (api env (SendMessage chat_id msg_cancelled NoMarkup)) (\<lambda>_. ret ()))
              (\<lambda>_.
            bind_act (delete_call_message env call chat_id) (\<lambda>_.
            bind_act (db_upd (\<lambda>now. clear_state (c_from_id call))) (\<lambda>_.
            bind_act (api env (AnswerCallback (c_id call) None)) (\<lambda>_. ret ())))))))
       (\<lambda>e. bind_act (api env (AnswerCallback (c_id call) (Some msg_cb_error))) (\<lambda>_. ret ()))"

text \<open>The pauses of a log, and the texts sent to a chat with \<^verbatim>\<open>send_message\<close>.\<close>

fun sleeps :: "event list \<Rightarrow> rat list" where
  "sleeps [] = []"
| "sleeps (Sleep d # es) = d # sleeps es"
| "sleeps (Call c # es) = sleeps es"

fun sends_to :: "int \<Rightarrow> event list \<Rightarrow> pystr list" where
  "sends_to chat [] = []"
| "sends_to chat (Call (SendMessage c text mk) # es) =
     (if c = chat then text # sends_to chat es else sends_to chat es)"
| "sends_to chat (e # es) = sends_to chat es"

text \<open>
  User 7 at step \<^verbatim>\<open>CONFIRM\<close> with the seven answers, and the press of the publish button.
\<close>

definition db_confirm :: database where
  "db_confirm =
     set_state 100 7 CONFIRM
       (update_data 100 7
          [''line'' \<mapsto> JStr [49], ''train'' \<mapsto> JStr [1069, 1050, 1040],
           ''station'' \<mapsto> JStr [65], ''direction'' \<mapsto> JStr [66], ''time'' \<mapsto> JStr [48, 55, 58, 53, 53],
           ''comment'' \<mapsto> JStr [45], ''route'' \<mapsto> JStr [45]] db0)"

definition press_publish :: callback where
  "press_publish =
     \<lparr>c_id = 3, c_from_id = 7, c_username = None, c_first_name = Some [65],
      c_data = data_confirm_publish,
      c_message = Some \<lparr>cm_chat_id = 7, cm_message_id = 41, cm_text = []\<rparr>\<rparr>"

subsection \<open>GongManager: the rate-limited broadcast\<close>














record rate_limiter =
  messages_per_period :: int
  period_seconds :: rat
  message_count :: int
  period_start :: rat


text \<open>
  \<^verbatim>\<open>wait_if_needed\<close>: the limiter after the call, and the world after the pause if there
  was one. It raises nothing.
\<close>

definition wait_if_needed :: "rate_limiter \<Rightarrow> world \<Rightarrow> rate_limiter \<times> world" where
  "wait_if_needed rl w =
     (let n = message_count rl + 1 in
      if n \<ge> messages_per_period rl then
        (let elapsed = w_clock w - period_start rl;
             w' = (if elapsed < period_seconds rl
                   then snd (sleep (period_seconds rl - elapsed) w) else w)
         in (rl\<lparr>message_count := 0, period_start := w_clock w'\<rparr>, w'))
      else (rl\<lparr>message_count := n\<rparr>, w))"













subsection \<open>ReportBot: the route step\<close>

text \<open>
  \<^verbatim>\<open>_route_choice\<close> and \<^verbatim>\<open>_manual_route\<close> are registered for text messages of a user at step
  \<^verbatim>\<open>ROUTE_CHOICE\<close> and \<^verbatim>\<open>ROUTE_MANUAL\<close>; the bodies themselves do not look at the step.
\<close>

definition ask_comment :: "env \<Rightarrow> int \<Rightarrow> int \<Rightarrow> unit act" where
  "ask_comment env user_id chat_id =
     try_except
       (bind_act (api env (SendMessage chat_id msg_ask_comment (ReplyKeyboard [btn_no_comment])))
          (\<lambda>msg_id.
        db_upd (\<lambda>now. set_data now user_id ''last_msg'' (JInt msg_id))))
       (\<lambda>e. error_msg env chat_id)"

definition route_choice :: "env \<Rightarrow> message \<Rightarrow> unit act" where
  "route_choice env m =
     try_except
       (let choice = strip (m_text m) in
        if choice = btn_route_skip then
          bind_act (db_upd (\<lambda>now. set_data now (m_from_id m) ''route'' (JStr [45]))) (\<lambda>_.
          bind_act (db_upd (\<lambda>now. set_state now (m_from_id m) COMMENT)) (\<lambda>_.
          ask_comment env (m_from_id m) (m_chat_id m)))
        else if choice = btn_route_manual then
          bind_act (db_upd (\<lambda>now. set_state now (m_from_id m) ROUTE_MANUAL)) (\<lambda>_.
          bind_act (api env (SendMessage (m_chat_id m) msg_enter_route NoMarkup)) (\<lambda>msg_id.
          db_upd (\<lambda>now. set_data now (m_from_id m) ''last_msg'' (JInt msg_id))))
        else
          bind_act (api env (SendMessage (m_chat_id m) msg_choose_button NoMarkup)) (\<lambda>msg_id.
          db_upd (\<lambda>now. set_data now (m_from_id m) ''last_msg'' (JInt msg_id))))
       (\<lambda>e. error_msg env (m_chat_id m))"

definition manual_route :: "env \<Rightarrow> message \<Rightarrow> unit act" where
  "manual_route env m =
     try_except
       (let route = strip (m_text m) in
        case validate_route_number route of
          (valid, error) \<Rightarrow>
            if \<not> valid then
              bind_act (api env (SendMessage (m_chat_id m) (case error of None \<Rightarrow> [] | Some e \<Rightarrow> e)
                                   NoMarkup)) (\<lambda>msg_id.
              db_upd (\<lambda>now. set_data now (m_from_id m) ''last_msg'' (JInt msg_id)))
            else
              bind_act (db_upd (\<lambda>now. set_data now (m_from_id m) ''route'' (JStr route))) (\<lambda>_.
              bind_act (db_upd (\<lambda>now. set_state now (m_from_id m) COMMENT)) (\<lambda>_.
              ask_comment env (m_from_id m) (m_chat_id m))))
       (\<lambda>e. error_msg env (m_chat_id m))"

text \<open>User 7 at step \<^verbatim>\<open>ROUTE_MANUAL\<close>.\<close>

definition db_route :: database where
  "db_route = set_state 100 7 ROUTE_MANUAL db0"

section \<open>Properties of the conversation state engine\<close>

lemma get_user_state_set_user_state:
  "get_user_state (set_user_state now u d db) u' = (if u' = u then Some d else get_user_state db u')"
  by (simp add: get_user_state_def set_user_state_def)

lemma truthy_state_upd: "truthy (d\<lparr>sd_state := Some s\<rparr>)"
  by (simp add: truthy_def)

lemma sd_data_current:
  "sd_data (case get_user_state db u of None \<Rightarrow> empty_dict
            | Some d \<Rightarrow> if truthy d then d else empty_dict)
   = (case get_user_state db u of None \<Rightarrow> None | Some d \<Rightarrow> sd_data d)"
  by (auto simp: empty_dict_def truthy_def split: option.splits)

lemma get_user_state_set_state:
  "get_user_state (set_state now u s db) u
   = Some ((case get_user_state db u of None \<Rightarrow> empty_dict
            | Some d \<Rightarrow> if truthy d then d else empty_dict)\<lparr>sd_state := Some s\<rparr>)"
  by (simp add: set_state_def Let_def get_user_state_set_user_state)

lemma get_data_set_state: "get_data (set_state now u s db) u = get_data db u"
proof -
  have "get_data (set_state now u s db) u
        = (case sd_data (case get_user_state db u of None \<Rightarrow> empty_dict
                          | Some d \<Rightarrow> if truthy d then d else empty_dict) of
             None \<Rightarrow> Map.empty | Some m \<Rightarrow> m)"
    by (simp add: get_data_def get_user_state_set_state truthy_state_upd)
  also have "\<dots> = get_data db u"
    by (auto simp: get_data_def sd_data_current truthy_def split: option.splits)
  finally show ?thesis .
qed

lemma get_state_set_state: "get_state (set_state now u s db) u = s"
  by (simp add: get_state_def get_user_state_set_state truthy_state_upd)

lemma set_state_twice_dict:
  "get_user_state (set_state n2 u s (set_state n1 u s db)) u = get_user_state (set_state n1 u s db) u"
  by (simp add: get_user_state_set_state truthy_state_upd)

text \<open>
  Claim C3. \<^verbatim>\<open>set_state\<close> is an idempotent overwrite that keeps the accumulated data: after
  two calls with the same step the stored dictionary, and so the data mapping, is the one
  stored by a single call (only the timestamp of the row is the second call's); a single
  call leaves \<^verbatim>\<open>get_data\<close> as it was and makes \<^verbatim>\<open>get_state\<close> the step that was set; and where
  the user had a record, the \<^verbatim>\<open>'data'\<close> entry of the record is unchanged.
\<close>

theorem set_state_idempotent_preserves_data:
  "get_user_state (set_state n2 u s (set_state n1 u s db)) u = get_user_state (set_state n1 u s db) u
   \<and> get_data (set_state n2 u s (set_state n1 u s db)) u = get_data (set_state n1 u s db) u
   \<and> get_data (set_state n1 u s db) u = get_data db u
   \<and> get_state (set_state n1 u s db) u = s
   \<and> (\<forall>r. states_tbl db u = Some r \<longrightarrow>
         (\<exists>r'. states_tbl (set_state n1 u s db) u = Some r'
               \<and> sd_data (state_data r') = sd_data (state_data r)))"
proof (intro conjI allI impI)
  show "get_user_state (set_state n2 u s (set_state n1 u s db)) u = get_user_state (set_state n1 u s db) u"
    by (rule set_state_twice_dict)
  show "get_data (set_state n2 u s (set_state n1 u s db)) u = get_data (set_state n1 u s db) u"
    by (simp add: get_data_set_state)
  show "get_data (set_state n1 u s db) u = get_data db u"
    by (rule get_data_set_state)
  show "get_state (set_state n1 u s db) u = s"
    by (rule get_state_set_state)
next
  fix r assume r: "states_tbl db u = Some r"
  have "get_user_state (set_state n1 u s db) u
        = Some ((if truthy (state_data r) then state_data r else empty_dict)\<lparr>sd_state := Some s\<rparr>)"
    using r by (simp add: get_user_state_set_state) (simp add: get_user_state_def)
  then obtain r' where r': "states_tbl (set_state n1 u s db) u = Some r'"
    and d: "state_data r' = (if truthy (state_data r) then state_data r else empty_dict)\<lparr>sd_state := Some s\<rparr>"
    by (auto simp: get_user_state_def)
  have "sd_data (state_data r') = sd_data (state_data r)"
    by (auto simp: d empty_dict_def truthy_def)
  with r' show "\<exists>r'. states_tbl (set_state n1 u s db) u = Some r'
                     \<and> sd_data (state_data r') = sd_data (state_data r)"
    by blast
qed

theorem set_state_idempotent_preserves_data_witness:
  "states_tbl db_line 7
     = Some \<lparr>state_data = \<lparr>sd_state = Some LINE, sd_data = Some [''line'' \<mapsto> JStr [49]]\<rparr>,
             updated_at = 100\<rparr>
   \<and> (\<exists>r'. states_tbl (set_state 200 7 TRAIN db_line) 7 = Some r'
             \<and> sd_data (state_data r') = Some [''line'' \<mapsto> JStr [49]])
   \<and> get_data (set_state 300 7 TRAIN (set_state 200 7 TRAIN db_line)) 7 = get_data db_line 7
   \<and> get_state (set_state 200 7 TRAIN db_line) 7 = TRAIN"
proof -
  have r: "states_tbl db_line 7
     = Some \<lparr>state_data = \<lparr>sd_state = Some LINE, sd_data = Some [''line'' \<mapsto> JStr [49]]\<rparr>,
             updated_at = 100\<rparr>"
    by (simp add: db_line_def db0_def update_data_def set_state_def set_user_state_def
        get_user_state_def truthy_def empty_dict_def idle_dict_def Let_def)
  from set_state_idempotent_preserves_data [of 300 7 TRAIN 200 db_line] r
  show ?thesis by simp
qed

text \<open>
  Claim C10. The getters are total on partially formed records. For a user without a
  record, \<^verbatim>\<open>set_state\<close> stores a dictionary with the key \<^verbatim>\<open>'state'\<close> and without the key
  \<^verbatim>\<open>'data'\<close>; after it \<^verbatim>\<open>get_data\<close> is the empty mapping and \<^verbatim>\<open>get_state\<close> the value set.
  Whatever the store holds, a record without \<^verbatim>\<open>'data'\<close> reads as the empty mapping and a
  record without \<^verbatim>\<open>'state'\<close> reads as \<^verbatim>\<open>IDLE\<close>: both getters are functions that return a
  value on every store.
\<close>

theorem getters_total_on_partial_records:
  "(states_tbl db u = None \<longrightarrow>
      states_tbl (set_state now u s db) u
        = Some \<lparr>state_data = \<lparr>sd_state = Some s, sd_data = None\<rparr>, updated_at = now\<rparr>
      \<and> get_data (set_state now u s db) u = Map.empty
      \<and> get_state (set_state now u s db) u = s)
   \<and> (\<forall>r. states_tbl db u = Some r \<and> sd_data (state_data r) = None \<longrightarrow> get_data db u = Map.empty)
   \<and> (\<forall>r. states_tbl db u = Some r \<and> sd_state (state_data r) = None \<longrightarrow> get_state db u = IDLE)"
proof (intro conjI allI impI)
  assume n: "states_tbl db u = None"
  show "states_tbl (set_state now u s db) u
        = Some \<lparr>state_data = \<lparr>sd_state = Some s, sd_data = None\<rparr>, updated_at = now\<rparr>"
    using n by (simp add: set_state_def set_user_state_def get_user_state_def empty_dict_def)
  have "get_data db u = Map.empty"
    using n by (simp add: get_data_def get_user_state_def)
  then show "get_data (set_state now u s db) u = Map.empty"
    by (simp add: get_data_set_state)
  show "get_state (set_state now u s db) u = s"
    by (rule get_state_set_state)
next
  fix r assume "states_tbl db u = Some r \<and> sd_data (state_data r) = None"
  then show "get_data db u = Map.empty"
    by (simp add: get_data_def get_user_state_def)
next
  fix r assume "states_tbl db u = Some r \<and> sd_state (state_data r) = None"
  then show "get_state db u = IDLE"
    by (simp add: get_state_def get_user_state_def)
qed

theorem getters_total_on_partial_records_witness:
  "states_tbl db0 7 = None
   \<and> states_tbl (set_state 100 7 LINE db0) 7
        = Some \<lparr>state_data = \<lparr>sd_state = Some LINE, sd_data = None\<rparr>, updated_at = 100\<rparr>
   \<and> get_data (set_state 100 7 LINE db0) 7 = Map.empty
   \<and> get_state (set_state 100 7 LINE db0) 7 = LINE
   \<and> get_data (set_state 200 7 TRAIN (set_state 100 7 LINE db0)) 7 = Map.empty"
proof -
  have n: "states_tbl db0 7 = None"
    by (simp add: db0_def)
  let ?db = "set_state 100 7 LINE db0"
  have r: "states_tbl ?db 7
           = Some \<lparr>state_data = \<lparr>sd_state = Some LINE, sd_data = None\<rparr>, updated_at = 100\<rparr>"
    using getters_total_on_partial_records [of db0 7 100 LINE] n by simp
  have "get_data ?db 7 = Map.empty"
    using getters_total_on_partial_records [of ?db 7 200 TRAIN] r by simp
  then have "get_data (set_state 200 7 TRAIN ?db) 7 = Map.empty"
    by (simp add: get_data_set_state)
  with getters_total_on_partial_records [of db0 7 100 LINE] n
  show ?thesis by simp
qed

text \<open>
  Claim C9. One run of the staleness sweep with a timeout of \<open>T\<close> minutes at time \<open>now\<close>
  deletes a conversation record whose \<^verbatim>\<open>updated_at\<close> is more than \<open>T\<close> minutes old, and
  keeps a record as it is, data and timestamp, when its age is at most \<open>T\<close> minutes. A user
  without a record has none afterwards.
\<close>

theorem cleanup_old_states_sweep:
  "(\<forall>r. states_tbl db u = Some r \<and> 60 * int T < now - updated_at r \<longrightarrow>
        states_tbl (cleanup_old_states now (int T) db) u = None)
   \<and> (\<forall>r. states_tbl db u = Some r \<and> now - updated_at r \<le> 60 * int T \<longrightarrow>
        states_tbl (cleanup_old_states now (int T) db) u = Some r)
   \<and> (states_tbl db u = None \<longrightarrow> states_tbl (cleanup_old_states now (int T) db) u = None)"
  by (auto simp: cleanup_old_states_def)

theorem cleanup_old_states_sweep_witness:
  "states_tbl db_line 7
     = Some \<lparr>state_data = \<lparr>sd_state = Some LINE, sd_data = Some [''line'' \<mapsto> JStr [49]]\<rparr>,
             updated_at = 100\<rparr>
   \<and> states_tbl (cleanup_old_states 1901 30 db_line) 7 = None
   \<and> states_tbl (cleanup_old_states 1900 30 db_line) 7 = states_tbl db_line 7
   \<and> states_tbl (cleanup_old_states 1901 30 db_line) 8 = None"
proof -
  have r: "states_tbl db_line 7
     = Some \<lparr>state_data = \<lparr>sd_state = Some LINE, sd_data = Some [''line'' \<mapsto> JStr [49]]\<rparr>,
             updated_at = 100\<rparr>"
    by (simp add: db_line_def db0_def update_data_def set_state_def set_user_state_def
        get_user_state_def truthy_def empty_dict_def idle_dict_def Let_def)
  have n: "states_tbl db_line 8 = None"
    by (simp add: db_line_def db0_def update_data_def set_state_def set_user_state_def
        get_user_state_def truthy_def empty_dict_def idle_dict_def Let_def)
  from cleanup_old_states_sweep [of db_line 7 30 1901] r
  have a: "states_tbl (cleanup_old_states 1901 30 db_line) 7 = None" by simp
  from cleanup_old_states_sweep [of db_line 7 30 1900] r
  have b: "states_tbl (cleanup_old_states 1900 30 db_line) 7 = states_tbl db_line 7" by simp
  from cleanup_old_states_sweep [of db_line 8 30 1901] n
  have c: "states_tbl (cleanup_old_states 1901 30 db_line) 8 = None" by simp
  from r a b c show ?thesis by simp
qed

section \<open>Properties of the validation helpers\<close>

lemma isdigit_char_ascii: "48 \<le> c \<Longrightarrow> c \<le> 57 \<Longrightarrow> isdigit_char c"
  by (simp add: isdigit_char_def in_ranges_def digit_ranges_def)

lemma isdigit_char_superscripts: "isdigit_char 178" "isdigit_char 179" "isdigit_char 185"
  by (simp_all add: isdigit_char_def in_ranges_def digit_ranges_def)

lemma not_isdigit_char_a: "\<not> isdigit_char 97"
  by (simp add: isdigit_char_def in_ranges_def digit_ranges_def)

lemma validate_route_number_accepts_iff:
  "validate_route_number route = (True, None) \<longleftrightarrow> length route = 3 \<and> list_all isdigit_char route"
  by (auto simp: validate_route_number_def isdigit_def)

lemma validate_route_number_ascii:
  "length route = 3 \<Longrightarrow> list_all (\<lambda>c. 48 \<le> c \<and> c \<le> 57) route
   \<Longrightarrow> validate_route_number route = (True, None)"
  by (auto simp: validate_route_number_accepts_iff list_all_iff isdigit_char_ascii)

section \<open>Properties of the handlers\<close>

lemma handle_start_banned:
  assumes "is_banned (w_db w) (m_from_id m)"
  shows "handle_start env m w =
           (Inr (), w\<lparr>w_log := w_log w @ [Call (SendMessage (m_chat_id m) msg_blocked NoMarkup)],
                      w_clock := w_clock w + api_dur env (length (w_log w))\<rparr>)"
  using assms
  by (simp add: handle_start_def try_except_def bind_act_def gets_def api_def ret_def Let_def)

lemma start_report_banned:
  assumes "is_banned (w_db w) (m_from_id m)"
  shows "fst (start_report cfg env m w) = Inr ()"
    and "w_db (snd (start_report cfg env m w)) = w_db w"
    and "w_log (snd (start_report cfg env m w)) =
           w_log w @ Call (SendMessage (m_chat_id m) msg_blocked NoMarkup)
             # (if api_ok env (length (w_log w)) then []
                else [Call (SendMessage (m_chat_id m) msg_error_start NoMarkup)])"
  using assms
  by (simp_all add: start_report_def error_msg_def try_except_def bind_act_def gets_def api_def
      ret_def Let_def)

text \<open>
  Claim C6. When a ban record exists for the sender, \<^verbatim>\<open>/start\<close> and the start-report button
  are both answered with the blocked message and nothing else happens to the store: every
  table, and so the sender's conversation record, is as it was (none is created, an
  existing one is not touched). This holds whether or not the transport delivers the
  answer; no exception leaves either handler.
\<close>

theorem banned_user_rejected:
  assumes "banned_tbl (w_db w) (m_from_id m) = Some b"
  shows "w_db (snd (handle_start env m w)) = w_db w
       \<and> w_db (snd (start_report cfg env m w)) = w_db w
       \<and> states_tbl (w_db (snd (handle_start env m w))) (m_from_id m) = states_tbl (w_db w) (m_from_id m)
       \<and> states_tbl (w_db (snd (start_report cfg env m w))) (m_from_id m) = states_tbl (w_db w) (m_from_id m)
       \<and> fst (handle_start env m w) = Inr () \<and> fst (start_report cfg env m w) = Inr ()
       \<and> w_log (snd (handle_start env m w))
           = w_log w @ [Call (SendMessage (m_chat_id m) msg_blocked NoMarkup)]
       \<and> w_log (snd (start_report cfg env m w))
           = w_log w @ Call (SendMessage (m_chat_id m) msg_blocked NoMarkup)
               # (if api_ok env (length (w_log w)) then []
                  else [Call (SendMessage (m_chat_id m) msg_error_start NoMarkup)])"
proof -
  have b: "is_banned (w_db w) (m_from_id m)"
    using assms by (simp add: is_banned_def)
  show ?thesis
    by (simp add: handle_start_banned [OF b] start_report_banned [OF b])
qed

theorem banned_user_rejected_witness:
  "banned_tbl (w_db (world0 (ban_user 900 7 ban_text db_line))) 7
     = Some \<lparr>reason = ban_text, banned_at = 900\<rparr>
   \<and> w_db (snd (start_report cfg0 env_ok (msg_from 7 btn_report) (world0 (ban_user 900 7 ban_text db_line))))
       = ban_user 900 7 ban_text db_line
   \<and> w_db (snd (handle_start env_down (msg_from 7 [47]) (world0 (ban_user 900 7 ban_text db_line))))
       = ban_user 900 7 ban_text db_line
   \<and> w_log (snd (start_report cfg0 env_ok (msg_from 7 btn_report) (world0 (ban_user 900 7 ban_text db_line))))
       = [Call (SendMessage 7 msg_blocked NoMarkup)]"
proof -
  let ?w = "world0 (ban_user 900 7 ban_text db_line)"
  have b: "banned_tbl (w_db ?w) (m_from_id (msg_from 7 t)) = Some \<lparr>reason = ban_text, banned_at = 900\<rparr>" for t
    by (simp add: world0_def ban_user_def msg_from_def)
  have d: "w_db ?w = ban_user 900 7 ban_text db_line"
    by (simp add: world0_def)
  from banned_user_rejected [OF b [of btn_report], where env = env_ok and cfg = cfg0]
    banned_user_rejected [OF b [of "[47]"], where env = env_down and cfg = cfg0] b [of "[47]"] d
  show ?thesis
    by (simp add: msg_from_def world0_def env_ok_def)
qed

section \<open>Properties of the reference list edit\<close>

lemma set_first_occurrences: "set (first_occurrences xs) = set xs"
  by (induction xs rule: first_occurrences.induct) auto

lemma distinct_first_occurrences: "distinct (first_occurrences xs)"
  by (induction xs rule: first_occurrences.induct) (auto simp: set_first_occurrences)

lemma length_first_occurrences: "length (first_occurrences xs) = card (set xs)"
  using distinct_card [OF distinct_first_occurrences, of xs]
  by (simp add: set_first_occurrences)

lemma unique_loop_first_occurrences:
  "unique_loop (set u) u ts = u @ first_occurrences (filter (\<lambda>t. t \<notin> set u) ts)"
proof (induction ts arbitrary: u)
  case Nil
  then show ?case by simp
next
  case (Cons t ts)
  show ?case
  proof (cases "t \<in> set u")
    case True
    then show ?thesis using Cons.IH [of u] by simp
  next
    case False
    have "removeAll t (filter (\<lambda>t. t \<notin> set u) ts) = filter (\<lambda>y. y \<notin> set (u @ [t])) ts"
      by (induction ts) auto
    then show ?thesis
      using False Cons.IH [of "u @ [t]"] by simp
  qed
qed

lemma unique_loop_empty: "unique_loop {} [] ts = first_occurrences ts"
  using unique_loop_first_occurrences [of "[]" ts] by simp

lemma foldl_insert_distinct:
  "distinct (acc @ xs) \<Longrightarrow>
   foldl (\<lambda>tbl name. if name \<in> set tbl then tbl else tbl @ [name]) acc xs = acc @ xs"
  by (induction xs arbitrary: acc) auto

lemma set_trains_distinct: "distinct xs \<Longrightarrow> trains_tbl (set_trains xs db) = xs"
  using foldl_insert_distinct [of "[]" xs] by (simp add: set_trains_def)

lemma handle_edit_accepts:
  assumes "m_from_id m \<in> set (ADMINS cfg)" and "parse_trains (m_text m) \<noteq> []"
  shows "trains_tbl (w_db (snd (handle_edit cfg env m w))) = first_occurrences (parse_trains (m_text m))"
    and "w_log (snd (handle_edit cfg env m w)) =
           w_log w @ Call (ReplyTo (m_chat_id m) (m_message_id m)
                       (trains_result_text (int (card (set (parse_trains (m_text m)))))
                          (int (length (parse_trains (m_text m)))
                            - int (card (set (parse_trains (m_text m))))))
                       ReplyKeyboardRemove)
             # (if api_ok env (length (w_log w)) then []
                else [Call (ReplyTo (m_chat_id m) (m_message_id m) msg_trains_error NoMarkup)])"
  using assms
  by (simp_all add: handle_edit_def try_except_def bind_act_def db_upd_def api_def ret_def Let_def
      unique_loop_empty set_trains_distinct distinct_first_occurrences length_first_occurrences)

lemma parse_trains_aba: "parse_trains text_aba = [[65], [66], [65]]"
  by (simp add: parse_trains_def text_aba_def strip_def split_on_def startswith_def
      isspace_char_def in_ranges_def space_ranges_def)

lemma parse_trains_bab: "parse_trains text_bab = [[66], [65], [66]]"
  by (simp add: parse_trains_def text_bab_def strip_def split_on_def startswith_def
      isspace_char_def in_ranges_def space_ranges_def)

lemma get_trains_handle_edit:
  assumes "m_from_id m \<in> set (ADMINS cfg)" and "parse_trains (m_text m) \<noteq> []"
  shows "get_trains (w_db (snd (handle_edit cfg env m w)))
         = sort (first_occurrences (parse_trains (m_text m)))"
  using handle_edit_accepts(1) [OF assms, of env w] by (simp add: get_trains_def)

text \<open>
  Claim C7, as amended. An edit submitted by an admin, with the entries \<open>trains\<close> (at least
  one), drops the duplicates: the rows of the table are the entries without their
  duplicates, inserted in the order of first occurrence, and the list the program reads
  back with \<^verbatim>\<open>get_trains\<close> holds every distinct entry once, sorted by name. The reply (sent
  whether or not it is delivered) reports the number of entries kept and, as the number of
  duplicates removed, the number of entries minus the number of distinct entries.
\<close>

theorem handle_edit_drops_duplicates:
  assumes "m_from_id m \<in> set (ADMINS cfg)"
    and "parse_trains (m_text m) = trains" and "trains \<noteq> []"
  shows "trains_tbl (w_db (snd (handle_edit cfg env m w))) = first_occurrences trains
       \<and> get_trains (w_db (snd (handle_edit cfg env m w))) = sort (first_occurrences trains)
       \<and> sorted (get_trains (w_db (snd (handle_edit cfg env m w))))
       \<and> distinct (get_trains (w_db (snd (handle_edit cfg env m w))))
       \<and> set (get_trains (w_db (snd (handle_edit cfg env m w)))) = set trains
       \<and> take (Suc (length (w_log w))) (w_log (snd (handle_edit cfg env m w)))
           = w_log w @ [Call (ReplyTo (m_chat_id m) (m_message_id m)
                         (trains_result_text (int (card (set trains)))
                            (int (length trains) - int (card (set trains))))
                         ReplyKeyboardRemove)]"
  using assms handle_edit_accepts [of m cfg env w] get_trains_handle_edit [of m cfg env w]
  by (auto simp: distinct_first_occurrences set_first_occurrences)

theorem handle_edit_drops_duplicates_witness:
  "1 \<in> set (ADMINS cfg0) \<and> parse_trains text_aba = [[65], [66], [65]]
   \<and> trains_tbl (w_db (snd (handle_edit cfg0 env_ok (msg_from 1 text_aba) (world0 db0)))) = [[65], [66]]
   \<and> get_trains (w_db (snd (handle_edit cfg0 env_ok (msg_from 1 text_aba) (world0 db0)))) = [[65], [66]]
   \<and> w_log (snd (handle_edit cfg0 env_ok (msg_from 1 text_aba) (world0 db0)))
       = [Call (ReplyTo 1 40 (trains_result_text 2 1) ReplyKeyboardRemove)]"
proof -
  let ?m = "msg_from 1 text_aba"
  have a: "m_from_id ?m \<in> set (ADMINS cfg0)"
    by (simp add: msg_from_def cfg0_def)
  have p: "parse_trains (m_text ?m) = [[65], [66], [65]]"
    by (simp add: msg_from_def parse_trains_aba)
  have c: "card (set [[65], [66], [65::nat]]) = 2"
    by (simp add: card_insert_if)
  have l: "w_log (snd (handle_edit cfg0 env_ok ?m (world0 db0)))
             = take (Suc (length (w_log (world0 db0)))) (w_log (snd (handle_edit cfg0 env_ok ?m (world0 db0))))"
    using handle_edit_accepts(2) [OF a, of env_ok "world0 db0"] p
    by (simp add: env_ok_def world0_def)
  from handle_edit_drops_duplicates [OF a p, of env_ok "world0 db0"] c l
  show ?thesis
    by (simp add: msg_from_def cfg0_def parse_trains_aba world0_def)
qed

text \<open>
  The claim as stated fails for the order. For the lines B, A, B the first occurrences are
  B, A, but the program reads the stored list back as A, B: \<^verbatim>\<open>get_trains\<close> orders by name.
\<close>

theorem handle_edit_order_counterexample:
  "parse_trains text_bab = [[66], [65], [66]]
   \<and> first_occurrences [[66], [65], [66 :: nat]] = [[66], [65]]
   \<and> get_trains (w_db (snd (handle_edit cfg0 env_ok (msg_from 1 text_bab) (world0 db0))))
       = [[65], [66]]"
proof -
  let ?m = "msg_from 1 text_bab"
  have a: "m_from_id ?m \<in> set (ADMINS cfg0)"
    by (simp add: msg_from_def cfg0_def)
  have p: "parse_trains (m_text ?m) = [[66], [65], [66]]"
    by (simp add: msg_from_def parse_trains_bab)
  have f: "first_occurrences [[66], [65], [66 :: nat]] = [[66], [65]]"
    by simp
  have "get_trains (w_db (snd (handle_edit cfg0 env_ok ?m (world0 db0)))) = sort [[66], [65]]"
    using get_trains_handle_edit [OF a, of env_ok "world0 db0"] p f by simp
  then show ?thesis
    using f by (simp add: parse_trains_bab)
qed

section \<open>Properties of the ban command\<close>

lemmas isspace_eval = isspace_char_def in_ranges_def space_ranges_def

lemma decimal_value_ascii: "48 \<le> c \<Longrightarrow> c \<le> 57 \<Longrightarrow> decimal_value c = Some (c - 48)"
  by (simp add: decimal_value_def decimal_ranges_def)

lemma split_text_ban_id: "split_ws_max 2 text_ban_id = [[47, 98, 97, 110], [49, 50, 51, 52, 53]]"
  by (simp add: split_ws_max_def text_ban_id_def isspace_eval lstrip_def)

lemma split_text_ban_name:
  "split_ws_max 2 text_ban_name = [[47, 98, 97, 110], [64, 103, 104, 111, 115, 116]]"
  by (simp add: split_ws_max_def text_ban_name_def isspace_eval lstrip_def)

lemma py_int_12345: "py_int [49, 50, 51, 52, 53] = Inr 12345"
  by (simp add: py_int_def int_space_def isspace_eval int_unsigned_def decimal_value_ascii)

text \<open>
  Claim C8. The invariant does not hold of the code. On a store without users an admin's
  \<^verbatim>\<open>/ban 12345\<close> is answered as done and leaves a ban record for 12345, while no user
  12345 exists: the branch for a numeric id calls \<^verbatim>\<open>ban_user\<close> without looking the user up.
  The branch for a user name does look the user up: \<^verbatim>\<open>/ban @ghost\<close> on the same store is
  refused and leaves no ban record.
\<close>

theorem handle_ban_by_id_without_user:
  "banned_tbl (w_db (snd (handle_ban cfg0 env_ok (msg_from 1 text_ban_id) (world0 db0)))) 12345
     = Some \<lparr>reason = [45], banned_at = 1000\<rparr>
   \<and> get_user_info (w_db (snd (handle_ban cfg0 env_ok (msg_from 1 text_ban_id) (world0 db0)))) 12345 = None
   \<and> users_tbl (w_db (snd (handle_ban cfg0 env_ok (msg_from 1 text_ban_id) (world0 db0)))) = []
   \<and> w_log (snd (handle_ban cfg0 env_ok (msg_from 1 text_ban_id) (world0 db0)))
       = [Call (ReplyTo 1 40 (ban_id_1 @ str_int 12345 @ ban_id_2 @ [45]) NoMarkup)]
   \<and> w_db (snd (handle_ban cfg0 env_ok (msg_from 1 text_ban_name) (world0 db0))) = db0
   \<and> w_log (snd (handle_ban cfg0 env_ok (msg_from 1 text_ban_name) (world0 db0)))
       = [Call (ReplyTo 1 40 (ban_not_found_1 @ [103, 104, 111, 115, 116] @ ban_not_found_2) NoMarkup)]"
proof -
  have id: "handle_ban cfg0 env_ok (msg_from 1 text_ban_id) (world0 db0)
            = (Inr (), \<lparr>w_db = ban_user 1000 12345 [45] db0, w_clock = 1000,
                 w_log = [Call (ReplyTo 1 40 (ban_id_1 @ str_int 12345 @ ban_id_2 @ [45]) NoMarkup)],
                 editing_users = {}, waiting_for_text = {}\<rparr>)"
    by (simp add: handle_ban_def msg_from_def cfg0_def split_text_ban_id startswith_def
        py_int_12345 ban_in_db_def sqlite_integer_def reply_to_def try_except_def bind_act_def
        lift_def db_upd_def api_def ret_def world0_def env_ok_def Let_def)
  have name: "handle_ban cfg0 env_ok (msg_from 1 text_ban_name) (world0 db0)
            = (Inr (), \<lparr>w_db = db0, w_clock = 1000,
                 w_log = [Call (ReplyTo 1 40
                            (ban_not_found_1 @ [103, 104, 111, 115, 116] @ ban_not_found_2) NoMarkup)],
                 editing_users = {}, waiting_for_text = {}\<rparr>)"
    by (simp add: handle_ban_def msg_from_def cfg0_def split_text_ban_name startswith_def
        get_user_id_by_username_def db0_def gets_def reply_to_def try_except_def bind_act_def
        api_def ret_def world0_def env_ok_def Let_def)
  show ?thesis
    unfolding id name by (simp add: ban_user_def get_user_info_def db0_def)
qed

section \<open>Properties of the time step\<close>

lemma bind_act_Inr: "m w = (Inr v, w') \<Longrightarrow> bind_act m f w = f v w'"
  by (simp add: bind_act_def)

lemma bind_act_Inl: "m w = (Inl e, w') \<Longrightarrow> bind_act m f w = (Inl e, w')"
  by (simp add: bind_act_def)

lemma api_db: "w_db (snd (api env c w)) = w_db w"
  by (simp add: api_def Let_def)

lemma error_msg_result: "\<exists>w'. error_msg env c w = (Inr (), w') \<and> w_db w' = w_db w"
  by (simp add: error_msg_def try_except_def bind_act_def api_def ret_def Let_def)

lemma delete_msg_result: "\<exists>w'. delete_msg env u c w = (Inr (), w') \<and> w_db w' = w_db w"
  by (simp add: delete_msg_def try_except_def bind_act_def gets_def api_def ret_def Let_def
      split: option.splits)

lemma get_data_set_data:
  "get_data (set_data now u k v db) u = (get_data db u)(k \<mapsto> v)"
  by (auto simp: get_data_def set_data_def get_user_state_set_user_state Let_def truthy_def
      idle_dict_def split: option.splits)

lemma get_state_set_data_truthy:
  "get_state db u \<noteq> IDLE \<Longrightarrow> get_state (set_data now u k v db) u = get_state db u"
  by (auto simp: get_state_def set_data_def get_user_state_set_user_state Let_def truthy_def
      idle_dict_def split: option.splits if_splits)

lemma ask_route_result:
  "\<exists>w'. ask_route env u c w = (Inr (), w')
        \<and> (\<forall>k. k \<noteq> ''last_msg'' \<longrightarrow> get_data (w_db w') u k = get_data (w_db w) u k)"
  using error_msg_result [of env c "snd (api env (SendMessage c msg_ask_route (ReplyKeyboard [btn_route_manual, btn_route_skip])) w)"]
  by (auto simp: ask_route_def try_except_def bind_act_def api_def db_upd_def ret_def Let_def
      get_data_set_data)

lemma py_int_error: "py_int t = Inl e \<Longrightarrow> e = ValueError"
  by (auto simp: py_int_def Let_def split: option.splits)

lemma item_error: "item xs i = Inl e \<Longrightarrow> e = IndexError"
  by (auto simp: item_def split: if_splits)

lemma parse_time_ago_try_error: "parse_time_ago_try s = Inl e \<Longrightarrow> e = ValueError \<or> e = IndexError"
  by (auto simp: parse_time_ago_try_def split: sum.splits dest: py_int_error item_error)

lemma parse_time_ago_total: "\<exists>n. parse_time_ago s = Inr n"
  by (auto simp: parse_time_ago_def split: sum.splits dest: parse_time_ago_try_error)

lemma decimal_value_cyr: "decimal_value 1057 = None"
  by (simp add: decimal_value_def decimal_ranges_def)

lemma py_int_label_now: "py_int label_now = Inl ValueError"
  by (simp add: py_int_def label_now_def int_space_def isspace_eval int_unsigned_def decimal_value_cyr)

lemma split_ws_label_now: "split_ws label_now = [label_now]"
  by (simp add: split_ws_def label_now_def isspace_eval)

lemma parse_time_ago_integer:
  assumes "split_ws s = t # ts" and "py_int t = Inr n"
  shows "parse_time_ago s = Inr n"
proof -
  have "s \<noteq> label_now"
    using assms py_int_label_now split_ws_label_now by auto
  then show ?thesis
    using assms by (simp add: parse_time_ago_def parse_time_ago_try_def item_def)
qed

lemma parse_time_ago_other:
  assumes "\<forall>t ts n. split_ws s = t # ts \<longrightarrow> py_int t \<noteq> Inr n"
  shows "parse_time_ago s = Inr 0"
proof (cases "split_ws s")
  case Nil
  then show ?thesis
    by (simp add: parse_time_ago_def parse_time_ago_try_def item_def)
next
  case (Cons t ts)
  with assms have "\<forall>n. py_int t \<noteq> Inr n" by simp
  then obtain e where "py_int t = Inl e" by (cases "py_int t") auto
  with py_int_error have "py_int t = Inl ValueError" by blast
  with Cons show ?thesis
    by (simp add: parse_time_ago_def parse_time_ago_try_def item_def)
qed


lemma bind_act_assoc: "bind_act (bind_act m g) f = bind_act m (\<lambda>x. bind_act (g x) f)"
  by (auto simp: bind_act_def fun_eq_iff split: prod.splits sum.splits)

lemma bind_act_ret: "bind_act (ret v) f = f v"
  by (simp add: bind_act_def ret_def fun_eq_iff)

lemma try_bind_gets: "try_except (bind_act (gets g) f) h w = try_except (f (g w)) h w"
  by (simp add: try_except_def bind_act_def gets_def)

lemma try_bind_lift_Inr: "try_except (bind_act (lift (Inr x)) f) h w = try_except (f x) h w"
  by (simp add: try_except_def bind_act_def lift_def)

lemma try_bind_lift_Inl: "try_except (bind_act (lift (Inl e)) f) h w = h e w"
  by (simp add: try_except_def bind_act_def lift_def)

lemma try_bind_db_upd:
  "try_except (bind_act (db_upd g) f) h w
   = try_except (f ()) h (w\<lparr>w_db := g \<lfloor>w_clock w\<rfloor> (w_db w)\<rparr>)"
  by (simp add: try_except_def bind_act_def db_upd_def)

lemma try_ret: "try_except (ret v) h w = (Inr v, w)"
  by (simp add: try_except_def ret_def)

lemma try_bind_delete_msg:
  "try_except (bind_act (delete_msg env u c) f) h w = try_except (f ()) h (snd (delete_msg env u c w))"
  using delete_msg_result [of env u c w] by (auto simp: try_except_def bind_act_def)

lemma delete_msg_db: "w_db (snd (delete_msg env u c w)) = w_db w"
  using delete_msg_result [of env u c w] by auto

lemma try_bind_ask_route:
  "try_except (bind_act (ask_route env u c) f) h w = try_except (f ()) h (snd (ask_route env u c w))"
  using ask_route_result [of env u c w] by (auto simp: try_except_def bind_act_def)

lemma ask_route_data:
  "k \<noteq> ''last_msg'' \<Longrightarrow> get_data (w_db (snd (ask_route env u c w))) u k = get_data (w_db w) u k"
  using ask_route_result [of env u c w] by auto

lemma answer_db:
  "w_db (snd (try_except (bind_act (api env c1) (\<lambda>_. ret ()))
                (\<lambda>e. bind_act (api env c2) (\<lambda>_. ret ())) w)) = w_db w"
  by (simp add: try_except_def bind_act_def api_def ret_def Let_def)

lemma split_time_data: "split_on_once 95 (116 # 105 # 109 # 101 # 95 # label) = [[116, 105, 109, 101], label]"
  by (simp add: split_on_once_def)

lemma select_time_run:
  assumes st: "get_state (w_db w) (c_from_id call) = TIME"
    and msg: "c_message call = Some cm"
    and data: "c_data call = [116, 105, 109, 101, 95] @ label"
    and p: "parse_time_ago label = Inr n"
    and lo: "0 \<le> local_minute env (w_clock w) - n"
    and hi: "local_minute env (w_clock w) - n < datetime_minutes"
  shows "get_data (w_db (snd (select_time env call w))) (c_from_id call) ''time''
         = Some (JStr (strftime_HM (local_minute env (w_clock w) - n)))"
  using st lo hi
  by (simp add: select_time_def check_state_def msg data p split_time_data item_def
      minus_minutes_def call_chat_id_def
      bind_act_assoc bind_act_ret try_bind_gets try_bind_lift_Inr try_bind_db_upd
      try_bind_delete_msg try_bind_ask_route answer_db ask_route_data delete_msg_db
      get_data_set_state get_data_set_data)


lemma api_then_ret:
  "w_db (snd (bind_act (api env c) (\<lambda>_. ret ()) w)) = w_db w"
  "w_log (snd (bind_act (api env c) (\<lambda>_. ret ()) w)) = w_log w @ [Call c]"
  by (simp_all add: bind_act_def api_def ret_def Let_def)

lemma select_time_overflow:
  assumes st: "get_state (w_db w) (c_from_id call) = TIME"
    and msg: "c_message call = Some cm"
    and data: "c_data call = [116, 105, 109, 101, 95] @ label"
    and p: "parse_time_ago label = Inr n"
    and out: "\<not> (0 \<le> local_minute env (w_clock w) - n \<and> local_minute env (w_clock w) - n < datetime_minutes)"
  shows "w_db (snd (select_time env call w)) = w_db w"
    and "w_log (snd (select_time env call w))
         = w_log w @ [Call (AnswerCallback (c_id call) (Some msg_cb_error))]"
  using st out
  by (auto simp: select_time_def check_state_def msg data p split_time_data item_def
      minus_minutes_def
      bind_act_assoc bind_act_ret try_bind_gets try_bind_lift_Inr try_bind_lift_Inl
      api_then_ret)

lemma decimal_value_0_1: "decimal_value 48 = Some 0" "decimal_value 49 = Some 1" "decimal_value 53 = Some 5"
  by (simp_all add: decimal_value_ascii)

lemma parse_time_ago_huge: "parse_time_ago label_huge = Inr 100000000000"
  by (simp add: parse_time_ago_def parse_time_ago_try_def label_huge_def label_now_def split_ws_def
      isspace_eval item_def py_int_def int_space_def int_unsigned_def decimal_value_0_1)

lemma parse_time_ago_5_min: "parse_time_ago label_5_min = Inr 5"
  by (simp add: parse_time_ago_def parse_time_ago_try_def label_5_min_def label_now_def split_ws_def
      isspace_eval item_def py_int_def int_space_def int_unsigned_def decimal_value_0_1)

lemma get_state_db_time: "get_state db_time 7 = TIME"
  by (simp add: db_time_def get_state_set_state)

text \<open>
  Claim C5, as amended. \<^verbatim>\<open>parse_time_ago\<close> returns a number for every label and never
  raises: 0 for the label of "now", \<open>n\<close> when the first whitespace-separated token of the
  label is an integer \<open>n\<close> for \<^verbatim>\<open>int()\<close>, and 0 for every other label. At step \<^verbatim>\<open>TIME\<close> the
  press of a time button stores, under \<^verbatim>\<open>'time'\<close>, the local time less that many minutes as
  hour:minute, provided that moment is a date \<^verbatim>\<open>datetime\<close> can hold; if it is not, the handler
  answers the press with the error notice and leaves the store as it was.
\<close>

theorem parse_time_ago_total_and_stored_time:
  "(\<exists>n. parse_time_ago s = Inr n)
   \<and> parse_time_ago label_now = Inr 0
   \<and> (\<forall>t ts n. split_ws s = t # ts \<and> py_int t = Inr n \<longrightarrow> parse_time_ago s = Inr n)
   \<and> ((\<forall>t ts n. split_ws s = t # ts \<longrightarrow> py_int t \<noteq> Inr n) \<longrightarrow> parse_time_ago s = Inr 0)
   \<and> (\<forall>w call cm n.
         get_state (w_db w) (c_from_id call) = TIME \<and> c_message call = Some cm
         \<and> c_data call = [116, 105, 109, 101, 95] @ s \<and> parse_time_ago s = Inr n \<longrightarrow>
         (if 0 \<le> local_minute env (w_clock w) - n \<and> local_minute env (w_clock w) - n < datetime_minutes
          then get_data (w_db (snd (select_time env call w))) (c_from_id call) ''time''
                 = Some (JStr (strftime_HM (local_minute env (w_clock w) - n)))
          else w_db (snd (select_time env call w)) = w_db w
               \<and> w_log (snd (select_time env call w))
                   = w_log w @ [Call (AnswerCallback (c_id call) (Some msg_cb_error))]))"
proof (intro conjI allI impI)
  show "\<exists>n. parse_time_ago s = Inr n"
    by (rule parse_time_ago_total)
  show "parse_time_ago label_now = Inr 0"
    by (simp add: parse_time_ago_def)
next
  fix t ts n assume "split_ws s = t # ts \<and> py_int t = Inr n"
  then show "parse_time_ago s = Inr n"
    using parse_time_ago_integer by blast
next
  assume "\<forall>t ts n. split_ws s = t # ts \<longrightarrow> py_int t \<noteq> Inr n"
  then show "parse_time_ago s = Inr 0"
    by (rule parse_time_ago_other)
next
  fix w :: world and call :: callback and cm :: cb_message and n :: int
  assume a: "get_state (w_db w) (c_from_id call) = TIME \<and> c_message call = Some cm
             \<and> c_data call = [116, 105, 109, 101, 95] @ s \<and> parse_time_ago s = Inr n"
  show "if 0 \<le> local_minute env (w_clock w) - n \<and> local_minute env (w_clock w) - n < datetime_minutes
        then get_data (w_db (snd (select_time env call w))) (c_from_id call) ''time''
               = Some (JStr (strftime_HM (local_minute env (w_clock w) - n)))
        else w_db (snd (select_time env call w)) = w_db w
             \<and> w_log (snd (select_time env call w))
                 = w_log w @ [Call (AnswerCallback (c_id call) (Some msg_cb_error))]"
  proof (cases "0 \<le> local_minute env (w_clock w) - n \<and> local_minute env (w_clock w) - n < datetime_minutes")
    case True
    then show ?thesis
      using a select_time_run [of w call cm s n env] by simp
  next
    case False
    then show ?thesis
      using a select_time_overflow [of w call cm s n env] by auto
  qed
qed

theorem parse_time_ago_total_and_stored_time_witness:
  "parse_time_ago label_5_min = Inr 5
   \<and> get_state (w_db (world0 db_time)) 7 = TIME
   \<and> 0 \<le> local_minute env_ok (w_clock (world0 db_time)) - 5
   \<and> local_minute env_ok (w_clock (world0 db_time)) - 5 < datetime_minutes
   \<and> get_data (w_db (snd (select_time env_ok (press_time label_5_min) (world0 db_time)))) 7 ''time''
       = Some (JStr [48, 55, 58, 53, 53])"
proof -
  let ?w = "world0 db_time" and ?c = "press_time label_5_min"
  have st: "get_state (w_db ?w) (c_from_id ?c) = TIME"
    by (simp add: world0_def press_time_def get_state_db_time)
  have msg: "c_message ?c = Some \<lparr>cm_chat_id = 7, cm_message_id = 41, cm_text = []\<rparr>"
    by (simp add: press_time_def)
  have data: "c_data ?c = [116, 105, 109, 101, 95] @ label_5_min"
    by (simp add: press_time_def)
  have range: "0 \<le> local_minute env_ok (w_clock ?w) - 5
               \<and> local_minute env_ok (w_clock ?w) - 5 < datetime_minutes"
    by (simp add: env_ok_def datetime_minutes_def)
  have fmt: "strftime_HM (local_minute env_ok (w_clock ?w) - 5) = [48, 55, 58, 53, 53]"
    by (simp add: env_ok_def strftime_HM_def two_digits_def)
  from parse_time_ago_total_and_stored_time [of label_5_min env_ok]
  have "get_state (w_db ?w) (c_from_id ?c) = TIME \<and> c_message ?c = Some \<lparr>cm_chat_id = 7, cm_message_id = 41, cm_text = []\<rparr>
        \<and> c_data ?c = [116, 105, 109, 101, 95] @ label_5_min \<and> parse_time_ago label_5_min = Inr 5 \<longrightarrow>
        (if 0 \<le> local_minute env_ok (w_clock ?w) - 5 \<and> local_minute env_ok (w_clock ?w) - 5 < datetime_minutes
         then get_data (w_db (snd (select_time env_ok ?c ?w))) (c_from_id ?c) ''time''
                = Some (JStr (strftime_HM (local_minute env_ok (w_clock ?w) - 5)))
         else w_db (snd (select_time env_ok ?c ?w)) = w_db ?w
              \<and> w_log (snd (select_time env_ok ?c ?w))
                  = w_log ?w @ [Call (AnswerCallback (c_id ?c) (Some msg_cb_error))])"
    by blast
  with st msg data parse_time_ago_5_min range
  have "get_data (w_db (snd (select_time env_ok ?c ?w))) (c_from_id ?c) ''time''
          = Some (JStr (strftime_HM (local_minute env_ok (w_clock ?w) - 5)))"
    by simp
  then have "get_data (w_db (snd (select_time env_ok ?c ?w))) 7 ''time'' = Some (JStr [48, 55, 58, 53, 53])"
    by (simp add: fmt) (simp add: press_time_def)
  with st range parse_time_ago_5_min show ?thesis
    by (simp add: press_time_def)
qed

text \<open>
  The claim as stated fails for the label \<^verbatim>\<open>100000000000\<close>: its first token is an integer,
  the elapsed minutes are that integer, but no time is stored: the subtraction leaves the
  range of \<^verbatim>\<open>datetime\<close> and the handler only answers with the error notice.
\<close>

theorem select_time_overflow_counterexample:
  "parse_time_ago label_huge = Inr 100000000000
   \<and> get_state (w_db (world0 db_time)) 7 = TIME
   \<and> get_data (w_db (snd (select_time env_ok (press_time label_huge) (world0 db_time)))) 7 ''time'' = None
   \<and> w_log (snd (select_time env_ok (press_time label_huge) (world0 db_time)))
       = [Call (AnswerCallback 3 (Some msg_cb_error))]"
proof -
  let ?w = "world0 db_time" and ?c = "press_time label_huge"
  have st: "get_state (w_db ?w) (c_from_id ?c) = TIME"
    by (simp add: world0_def press_time_def get_state_db_time)
  have msg: "c_message ?c = Some \<lparr>cm_chat_id = 7, cm_message_id = 41, cm_text = []\<rparr>"
    by (simp add: press_time_def)
  have data: "c_data ?c = [116, 105, 109, 101, 95] @ label_huge"
    by (simp add: press_time_def)
  have out: "\<not> (0 \<le> local_minute env_ok (w_clock ?w) - 100000000000
              \<and> local_minute env_ok (w_clock ?w) - 100000000000 < datetime_minutes)"
    by (simp add: env_ok_def)
  have d: "get_data db_time 7 ''time'' = None"
    by (simp add: db_time_def get_data_set_state) (simp add: get_data_def get_user_state_def db0_def)
  from select_time_overflow [OF st msg data parse_time_ago_huge out] st d
  show ?thesis
    by (simp add: parse_time_ago_huge) (simp add: world0_def press_time_def)
qed

section \<open>Properties of confirmation and publishing\<close>

lemma sleeps_append: "sleeps (a @ b) = sleeps a @ sleeps b"
  by (induction a rule: sleeps.induct) auto

lemma try_bind_Inr: "m w = (Inr v, w') \<Longrightarrow> try_except (bind_act m f) h w = try_except (f v) h w'"
  by (simp add: try_except_def bind_act_def)

lemma retry_on_error_3:
  "retry_on_error 3 1 f =
     try_except f (\<lambda>e1. bind_act (sleep 1) (\<lambda>_.
       try_except f (\<lambda>e2. bind_act (sleep 2) (\<lambda>_.
         try_except f (\<lambda>e3. raise e3)))))"
  by (simp add: retry_on_error_def numeral_3_eq_3 bind_act_ret)

lemma publish_body_result:
  "publish_body cfg env u un fn w =
     (case report_text cfg (get_data (w_db w) u) u un fn of
        Inl e \<Rightarrow> (Inr False, w)
      | Inr text \<Rightarrow>
          (Inr (api_ok env (length (w_log w))),
           w\<lparr>w_log := w_log w @ [Call (SendMessage (CHANNEL_ID cfg) text NoMarkup)],
             w_clock := w_clock w + api_dur env (length (w_log w))\<rparr>))"
  by (simp add: publish_body_def try_except_def bind_act_def gets_def lift_def api_def ret_def
      Let_def split: sum.splits)

lemma publish_returns: "\<exists>b w'. publish cfg env u un fn w = (Inr b, w')"
  by (auto simp: publish_def retry_on_error_3 try_except_def publish_body_result split: sum.splits)

lemma publish_result: "publish cfg env u un fn w = publish_body cfg env u un fn w"
  by (simp add: publish_def retry_on_error_3 try_except_def publish_body_result split: sum.splits)

lemma delete_call_message_result:
  "\<exists>w'. delete_call_message env call c w = (Inr (), w') \<and> w_db w' = w_db w
        \<and> (\<exists>es. w_log w' = w_log w @ es)"
  by (simp add: delete_call_message_def try_except_def bind_act_def lift_def api_def ret_def
      Let_def call_message_id_def split: option.splits)

lemma try_bind_delete_call_message:
  "try_except (bind_act (delete_call_message env call c) f) h w
   = try_except (f ()) h (snd (delete_call_message env call c w))"
  using delete_call_message_result [of env call c w] by (auto simp: try_except_def bind_act_def)

lemma delete_call_message_db: "w_db (snd (delete_call_message env call c w)) = w_db w"
  using delete_call_message_result [of env call c w] by auto

lemma delete_call_message_log: "\<exists>es. w_log (snd (delete_call_message env call c w)) = w_log w @ es"
  using delete_call_message_result [of env call c w] by auto

lemma try_bind_api:
  "try_except (bind_act (api env c) f) h w =
     (if api_ok env (length (w_log w))
      then try_except (f (api_msg_id env (length (w_log w)))) h
             (w\<lparr>w_log := w_log w @ [Call c], w_clock := w_clock w + api_dur env (length (w_log w))\<rparr>)
      else h ApiError
             (w\<lparr>w_log := w_log w @ [Call c], w_clock := w_clock w + api_dur env (length (w_log w))\<rparr>))"
  by (simp add: try_except_def bind_act_def api_def Let_def)

lemma answer_log:
  "\<exists>es. w_log (snd (try_except (bind_act (api env c1) (\<lambda>_. ret ()))
                (\<lambda>e. bind_act (api env c2) (\<lambda>_. ret ())) w)) = w_log w @ es"
  by (simp add: try_except_def bind_act_def api_def ret_def Let_def)

lemma states_clear_state: "states_tbl (clear_state u db) u = None"
  by (simp add: clear_state_def clear_user_state_def)

lemma confirm_publish_step:
  assumes st: "get_state (w_db w) (c_from_id call) = CONFIRM"
    and msg: "c_message call = Some cm"
    and data: "c_data call = data_confirm_publish"
    and pub: "publish cfg env (c_from_id call) (c_username call) (c_first_name call) w = (Inr success, w1)"
  shows "confirm_action cfg env call w =
     try_except
       (bind_act (api env (SendMessage (cm_chat_id cm)
                    (if success then msg_published else msg_publish_failed)
                    (if success then ReplyKeyboard [btn_report] else NoMarkup)))
          (\<lambda>_. bind_act (delete_call_message env call (cm_chat_id cm)) (\<lambda>_.
                bind_act (db_upd (\<lambda>now. clear_state (c_from_id call))) (\<lambda>_.
                bind_act (api env (AnswerCallback (c_id call) None)) (\<lambda>_. ret ())))))
       (\<lambda>e. bind_act (api env (AnswerCallback (c_id call) (Some msg_cb_error))) (\<lambda>_. ret ()))
       w1"
proof -
  have pub_step: "try_except
          (bind_act (publish cfg env (c_from_id call) (c_username call) (c_first_name call)) f) h w
        = try_except (f success) h w1" for f :: "bool \<Rightarrow> unit act" and h
    using pub by (simp add: try_except_def bind_act_def)
  show ?thesis
    using st
    by (cases success)
      (simp_all add: confirm_action_def check_state_def msg data call_chat_id_def
        bind_act_assoc bind_act_ret try_bind_gets try_bind_lift_Inr pub_step)
qed

lemma confirm_publish_run:
  assumes st: "get_state (w_db w) (c_from_id call) = CONFIRM"
    and msg: "c_message call = Some cm"
    and data: "c_data call = data_confirm_publish"
    and pub: "publish cfg env (c_from_id call) (c_username call) (c_first_name call) w = (Inr success, w1)"
  shows "\<exists>rest. w_log (snd (confirm_action cfg env call w))
           = w_log w1 @ Call (SendMessage (cm_chat_id cm)
                               (if success then msg_published else msg_publish_failed)
                               (if success then ReplyKeyboard [btn_report] else NoMarkup)) # rest"
    and "api_ok env (length (w_log w1)) \<Longrightarrow>
           states_tbl (w_db (snd (confirm_action cfg env call w))) (c_from_id call) = None"
proof -
  note run = confirm_publish_step [OF st msg data pub]
  let ?w2 = "w1\<lparr>w_log := w_log w1 @ [Call (SendMessage (cm_chat_id cm)
                    (if success then msg_published else msg_publish_failed)
                    (if success then ReplyKeyboard [btn_report] else NoMarkup))],
               w_clock := w_clock w1 + api_dur env (length (w_log w1))\<rparr>"
  obtain es where es: "w_log (snd (delete_call_message env call (cm_chat_id cm) ?w2)) = w_log ?w2 @ es"
    using delete_call_message_log by blast
  show "\<exists>rest. w_log (snd (confirm_action cfg env call w))
           = w_log w1 @ Call (SendMessage (cm_chat_id cm)
                               (if success then msg_published else msg_publish_failed)
                               (if success then ReplyKeyboard [btn_report] else NoMarkup)) # rest"
  proof (cases "api_ok env (length (w_log w1))")
    case True
    then show ?thesis
      using es
      by (simp add: run try_bind_api try_bind_delete_call_message try_bind_db_upd)
        (simp add: try_except_def bind_act_def api_def ret_def Let_def)
  next
    case False
    then show ?thesis
      by (simp add: run try_bind_api api_then_ret)
  qed
  show "states_tbl (w_db (snd (confirm_action cfg env call w))) (c_from_id call) = None"
    if "api_ok env (length (w_log w1))"
    using that
    by (simp add: run try_bind_api try_bind_delete_call_message try_bind_db_upd try_ret
        api_then_ret delete_call_message_db states_clear_state)
qed

lemma w_db_world0: "w_db (world0 d) = d"
  by (simp add: world0_def)

lemma get_state_db_confirm: "get_state db_confirm 7 = CONFIRM"
  by (simp add: db_confirm_def get_state_set_state)

lemma get_data_update_data:
  "get_data (update_data now u m db) u = get_data db u ++ m"
  by (auto simp: get_data_def update_data_def get_user_state_set_user_state Let_def truthy_def
      idle_dict_def split: option.splits)

lemma get_data_db0: "get_data db0 u = Map.empty"
  by (simp add: get_data_def get_user_state_def db0_def)

lemma report_text_db_confirm:
  "\<exists>text. report_text cfg0 (get_data db_confirm 7) 7 None (Some [65]) = Inr text"
  by (simp add: db_confirm_def get_data_set_state get_data_update_data get_data_db0
      report_text_def data_item_def)

lemma press_publish_fields:
  "c_from_id press_publish = 7" "c_username press_publish = None"
  "c_first_name press_publish = Some [65]" "c_id press_publish = 3"
  "c_data press_publish = data_confirm_publish"
  "c_message press_publish = Some \<lparr>cm_chat_id = 7, cm_message_id = 41, cm_text = []\<rparr>"
  by (simp_all add: press_publish_def)

lemma confirm_first_fails:
  "\<exists>body. report_text cfg0 (get_data db_confirm 7) 7 None (Some [65]) = Inr body
     \<and> w_log (snd (confirm_action cfg0 env_first_fails press_publish (world0 db_confirm)))
     = [Call (SendMessage (CHANNEL_ID cfg0) body NoMarkup), Call (SendMessage 7 msg_publish_failed NoMarkup),
        Call (DeleteMessage 7 (JInt 41)), Call (AnswerCallback 3 None)]"
proof -
  let ?w = "world0 db_confirm"
  obtain body where t: "report_text cfg0 (get_data db_confirm 7) 7 None (Some [65]) = Inr body"
    using report_text_db_confirm by blast
  have pub: "publish cfg0 env_first_fails (c_from_id press_publish) (c_username press_publish)
               (c_first_name press_publish) ?w
             = (Inr False, ?w\<lparr>w_log := [Call (SendMessage (- 1001) body NoMarkup)]\<rparr>)"
    by (simp add: publish_result publish_body_result press_publish_fields w_db_world0 t)
      (simp add: world0_def env_first_fails_def env_ok_def cfg0_def)
  have st: "get_state (w_db ?w) (c_from_id press_publish) = CONFIRM"
    by (simp add: world0_def press_publish_fields get_state_db_confirm)
  have "w_log (snd (confirm_action cfg0 env_first_fails press_publish ?w))
     = [Call (SendMessage (CHANNEL_ID cfg0) body NoMarkup), Call (SendMessage 7 msg_publish_failed NoMarkup),
        Call (DeleteMessage 7 (JInt 41)), Call (AnswerCallback 3 None)]"
    unfolding confirm_publish_step [OF st press_publish_fields(6) press_publish_fields(5) pub]
    by (simp add: delete_call_message_def call_message_id_def press_publish_fields
        try_except_def bind_act_def lift_def api_def db_upd_def ret_def Let_def
        env_first_fails_def env_ok_def world0_def cfg0_def)
  with t show ?thesis by blast
qed

lemma confirm_down:
  "get_state (w_db (snd (confirm_action cfg0 env_down press_publish (world0 db_confirm)))) 7 = CONFIRM"
proof -
  let ?w = "world0 db_confirm"
  obtain body where t: "report_text cfg0 (get_data db_confirm 7) 7 None (Some [65]) = Inr body"
    using report_text_db_confirm by blast
  have pub: "publish cfg0 env_down (c_from_id press_publish) (c_username press_publish)
               (c_first_name press_publish) ?w
             = (Inr False, ?w\<lparr>w_log := [Call (SendMessage (- 1001) body NoMarkup)]\<rparr>)"
    by (simp add: publish_result publish_body_result press_publish_fields w_db_world0 t)
      (simp add: world0_def env_down_def env_ok_def cfg0_def)
  have st: "get_state (w_db ?w) (c_from_id press_publish) = CONFIRM"
    by (simp add: world0_def press_publish_fields get_state_db_confirm)
  have "w_db (snd (confirm_action cfg0 env_down press_publish ?w)) = db_confirm"
    unfolding confirm_publish_step [OF st press_publish_fields(6) press_publish_fields(5) pub]
    by (simp add: try_bind_api api_then_ret env_down_def env_ok_def w_db_world0)
  then show ?thesis by (simp add: get_state_db_confirm)
qed

lemma publish_log:
  "sleeps (w_log (snd (publish cfg env u un fn w))) = sleeps (w_log w)"
  "length (w_log (snd (publish cfg env u un fn w))) \<le> Suc (length (w_log w))"
  by (simp_all add: publish_result publish_body_result sleeps_append split: sum.splits)

lemma retry_on_error_down:
  "fst (retry_on_error 3 1 (api env_down c) (world0 db0)) = Inl ApiError"
  "sleeps (w_log (snd (retry_on_error 3 1 (api env_down c) (world0 db0)))) = [1, 2]"
  by (simp_all add: retry_on_error_3 try_except_def bind_act_def api_def sleep_def raise_def
      Let_def env_down_def env_ok_def world0_def)

lemma confirm_first_fails_state:
  "states_tbl (w_db (snd (confirm_action cfg0 env_first_fails press_publish (world0 db_confirm)))) 7 = None"
proof -
  let ?w = "world0 db_confirm"
  obtain body where t: "report_text cfg0 (get_data db_confirm 7) 7 None (Some [65]) = Inr body"
    using report_text_db_confirm by blast
  have pub: "publish cfg0 env_first_fails (c_from_id press_publish) (c_username press_publish)
               (c_first_name press_publish) ?w
             = (Inr False, ?w\<lparr>w_log := [Call (SendMessage (- 1001) body NoMarkup)]\<rparr>)"
    by (simp add: publish_result publish_body_result press_publish_fields w_db_world0 t)
      (simp add: world0_def env_first_fails_def env_ok_def cfg0_def)
  have st: "get_state (w_db ?w) (c_from_id press_publish) = CONFIRM"
    by (simp add: world0_def press_publish_fields get_state_db_confirm)
  have ok: "api_ok env_first_fails (length (w_log (?w\<lparr>w_log := [Call (SendMessage (- 1001) body NoMarkup)]\<rparr>)))"
    by (simp add: env_first_fails_def env_ok_def)
  from confirm_publish_run(2) [OF st press_publish_fields(6) press_publish_fields(5) pub ok]
  show ?thesis by (simp add: press_publish_fields)
qed

text \<open>
  Claim C2. The claim says that the delivery of the report to the output channel is tried
  up to three times, with pauses of 1, 2 and 4 seconds, before the failure is told to the
  submitter, and that the conversation is cleared in every case. The code does not do
  this. \<^verbatim>\<open>_publish\<close> catches every exception itself and returns \<^verbatim>\<open>False\<close>, so that the wrapper
  \<^verbatim>\<open>retry_on_error(max_retries=3, delay=1.0)\<close> around it never sees a failure: for every
  configuration, transport, user and world the decorated \<^verbatim>\<open>_publish\<close> is its body run once,
  it adds no pause and at most one request to the log. (The wrapper itself, given an
  operation that raises, pauses 1 and 2 seconds between its three attempts, never 4.)
  With a transport that refuses the first request and accepts the second and the third,
  user 7 at step \<^verbatim>\<open>CONFIRM\<close> with the seven answers presses the publish button: the log is
  the report sent once to the channel, the notice that the publication failed sent to
  the submitter, the deletion of the message of the buttons and the answer to the
  callback; there is no pause, and the conversation record is deleted. With a
  transport that refuses every request the notice to the submitter raises, the handler's
  \<^verbatim>\<open>except\<close> is entered before \<^verbatim>\<open>clear_state\<close>, and the user stays at step \<^verbatim>\<open>CONFIRM\<close>.
\<close>

theorem confirm_publish_single_attempt:
  "publish cfg env u un fn w = publish_body cfg env u un fn w
   \<and> sleeps (w_log (snd (publish cfg env u un fn w))) = sleeps (w_log w)
   \<and> length (w_log (snd (publish cfg env u un fn w))) \<le> Suc (length (w_log w))
   \<and> sleeps (w_log (snd (retry_on_error 3 1 (api env_down c) (world0 db0)))) = [1, 2]
   \<and> \<not> api_ok env_first_fails 0 \<and> api_ok env_first_fails 1 \<and> api_ok env_first_fails 2
   \<and> (\<exists>body. report_text cfg0 (get_data db_confirm 7) 7 None (Some [65]) = Inr body
        \<and> w_log (snd (confirm_action cfg0 env_first_fails press_publish (world0 db_confirm)))
            = [Call (SendMessage (CHANNEL_ID cfg0) body NoMarkup),
               Call (SendMessage 7 msg_publish_failed NoMarkup),
               Call (DeleteMessage 7 (JInt 41)), Call (AnswerCallback 3 None)])
   \<and> sleeps (w_log (snd (confirm_action cfg0 env_first_fails press_publish (world0 db_confirm)))) = []
   \<and> states_tbl (w_db (snd (confirm_action cfg0 env_first_fails press_publish (world0 db_confirm)))) 7 = None
   \<and> get_state (w_db (snd (confirm_action cfg0 env_down press_publish (world0 db_confirm)))) 7 = CONFIRM"
proof -
  obtain body where
    body: "report_text cfg0 (get_data db_confirm 7) 7 None (Some [65]) = Inr body"
    and log: "w_log (snd (confirm_action cfg0 env_first_fails press_publish (world0 db_confirm)))
     = [Call (SendMessage (CHANNEL_ID cfg0) body NoMarkup), Call (SendMessage 7 msg_publish_failed NoMarkup),
        Call (DeleteMessage 7 (JInt 41)), Call (AnswerCallback 3 None)]"
    using confirm_first_fails by blast
  have oks: "\<not> api_ok env_first_fails 0 \<and> api_ok env_first_fails 1 \<and> api_ok env_first_fails 2"
    by (simp add: env_first_fails_def env_ok_def)
  have run: "\<exists>body. report_text cfg0 (get_data db_confirm 7) 7 None (Some [65]) = Inr body
        \<and> w_log (snd (confirm_action cfg0 env_first_fails press_publish (world0 db_confirm)))
            = [Call (SendMessage (CHANNEL_ID cfg0) body NoMarkup),
               Call (SendMessage 7 msg_publish_failed NoMarkup),
               Call (DeleteMessage 7 (JInt 41)), Call (AnswerCallback 3 None)]"
    using body log by blast
  have sl: "sleeps (w_log (snd (confirm_action cfg0 env_first_fails press_publish (world0 db_confirm)))) = []"
    by (simp add: log)
  show ?thesis
    using publish_result [of cfg env u un fn w] publish_log(1,2) [of cfg env u un fn w]
      retry_on_error_down(2) [of c] oks run sl confirm_first_fails_state confirm_down
    by blast
qed

section \<open>Properties of the broadcast\<close>



lemma wait_if_needed_db: "w_db (snd (wait_if_needed rl w)) = w_db w"
  by (simp add: wait_if_needed_def Let_def sleep_def)



















section \<open>Properties of the route step\<close>

lemma get_state_set_data: "get_state (set_data now u k v db) u = get_state db u"
  by (auto simp: get_state_def set_data_def get_user_state_set_user_state Let_def truthy_def
      idle_dict_def split: option.splits)

lemma ask_comment_result:
  "\<exists>w'. ask_comment env u c w = (Inr (), w')
        \<and> (\<forall>k. k \<noteq> ''last_msg'' \<longrightarrow> get_data (w_db w') u k = get_data (w_db w) u k)
        \<and> get_state (w_db w') u = get_state (w_db w) u"
  using error_msg_result [of env c "snd (api env (SendMessage c msg_ask_comment (ReplyKeyboard [btn_no_comment])) w)"]
  by (auto simp: ask_comment_def try_except_def bind_act_def api_def db_upd_def ret_def Let_def
      get_data_set_data get_state_set_data)

lemma ask_comment_data:
  "k \<noteq> ''last_msg'' \<Longrightarrow> get_data (w_db (snd (ask_comment env u c w))) u k = get_data (w_db w) u k"
  using ask_comment_result [of env u c w] by auto

lemma ask_comment_state: "get_state (w_db (snd (ask_comment env u c w))) u = get_state (w_db w) u"
  using ask_comment_result [of env u c w] by auto

lemma try_ask_comment:
  "try_except (ask_comment env u c) h w = (Inr (), snd (ask_comment env u c w))"
  using ask_comment_result [of env u c w] by (auto simp: try_except_def)

lemma manual_route_accepted:
  assumes "validate_route_number (strip (m_text m)) = (True, None)"
  shows "get_data (w_db (snd (manual_route env m w))) (m_from_id m) ''route''
           = Some (JStr (strip (m_text m)))"
    and "get_state (w_db (snd (manual_route env m w))) (m_from_id m) = COMMENT"
  using assms
  by (simp_all add: manual_route_def Let_def try_bind_db_upd try_ask_comment ask_comment_data
      ask_comment_state get_data_set_data get_data_set_state get_state_set_state get_state_set_data)

lemma strip_superscripts: "strip [178, 179, 185] = [178, 179, 185]"
  by (simp add: strip_def isspace_eval)

lemma strip_btn_route_skip: "strip btn_route_skip = btn_route_skip"
  by (simp add: strip_def btn_route_skip_def isspace_eval)

lemma route_choice_skip:
  assumes "strip (m_text m) = btn_route_skip"
  shows "get_data (w_db (snd (route_choice env m w))) (m_from_id m) ''route'' = Some (JStr [45])"
    and "get_state (w_db (snd (route_choice env m w))) (m_from_id m) = COMMENT"
  using assms
  by (simp_all add: route_choice_def Let_def try_bind_db_upd try_ask_comment ask_comment_data
      ask_comment_state get_data_set_data get_data_set_state get_state_set_state get_state_set_data)

text \<open>
  Claim C4. \<^verbatim>\<open>validate_route_number\<close> accepts \<^verbatim>\<open>"123"\<close> and rejects \<^verbatim>\<open>"12a"\<close> (not only
  digits), \<^verbatim>\<open>"12"\<close> and \<^verbatim>\<open>"1234"\<close> (not three characters), each with its message. But it
  also accepts the three superscript digits U+00B2 U+00B3 U+00B9, for which \<^verbatim>\<open>str.isdigit\<close>
  holds: an accepted string need not consist of the ASCII characters 0 to 9. Sent at step
  \<^verbatim>\<open>ROUTE_MANUAL\<close>, that string is stored as the route and the wizard moves on to the
  comment. Skipping stores the sentinel \<^verbatim>\<open>"-"\<close>.
\<close>

theorem validate_route_number_accepts_superscripts:
  "validate_route_number [49, 50, 51] = (True, None)
   \<and> validate_route_number [49, 50, 97] = (False, Some msg_only_digits)
   \<and> validate_route_number [49, 50] = (False, Some msg_three_digits)
   \<and> validate_route_number [49, 50, 51, 52] = (False, Some msg_three_digits)
   \<and> validate_route_number [178, 179, 185] = (True, None)
   \<and> \<not> list_all (\<lambda>c. 48 \<le> c \<and> c \<le> 57) [178, 179, 185::nat]
   \<and> get_data (w_db (snd (manual_route env_ok (msg_from 7 [178, 179, 185]) (world0 db_route)))) 7 ''route''
       = Some (JStr [178, 179, 185])
   \<and> get_state (w_db (snd (manual_route env_ok (msg_from 7 [178, 179, 185]) (world0 db_route)))) 7 = COMMENT
   \<and> get_data (w_db (snd (route_choice env_ok (msg_from 7 btn_route_skip) (world0 db_route)))) 7 ''route''
       = Some (JStr [45])"
proof -
  have v: "validate_route_number [178, 179, 185] = (True, None)"
    by (simp add: validate_route_number_def isdigit_def isdigit_char_superscripts)
  have m: "m_text (msg_from 7 t) = t" "m_from_id (msg_from 7 t) = 7" for t
    by (simp_all add: msg_from_def)
  have a: "validate_route_number (strip (m_text (msg_from 7 [178, 179, 185]))) = (True, None)"
    by (simp add: m strip_superscripts v)
  have s: "strip (m_text (msg_from 7 btn_route_skip)) = btn_route_skip"
    by (simp add: m strip_btn_route_skip)
  from manual_route_accepted [OF a, of env_ok "world0 db_route"]
    route_choice_skip [OF s, of env_ok "world0 db_route"]
  show ?thesis
    by (simp add: m strip_superscripts validate_route_number_def isdigit_def isdigit_char_ascii
        isdigit_char_superscripts not_isdigit_char_a)
qed

end
